theory Spec2Isabelle
  imports Complex_Main "HOL-Library.AList"
begin

section \<open>Python values and strings\<close>

text \<open>
  The program is Python. Its strings are modelled as HOL strings, whose characters are
  bytes: a character outside ASCII is the sequence of its UTF-8 bytes. The methods of
  \<open>str\<close> that follow the Unicode tables of the interpreter (\<open>lower\<close>, \<open>upper\<close>,
  \<open>strip\<close>) are not defined here: they are taken from the environment, as every other
  answer of the world outside the repository is. Python's unbounded integers are
  \<open>int\<close>. A float is never computed with by the program (it is printed, stored or
  compared by the vector store), so the floats of a decoded JSON text are carried as the
  text that Python's \<open>str()\<close> prints for them, and embedding vectors and distances are
  reals. The \<open>print\<close> of \<open>MemoryLayer.add\<close> writes to the standard output and may
  raise; the calls of \<open>logging\<close> report their own failures without raising and are left
  out.
\<close>

definition nl :: string where
  "nl = [CHR 0x0A]"

text \<open>The substring test \<open>needle in hay\<close>.\<close>

fun starts_with :: "string \<Rightarrow> string \<Rightarrow> bool" where
  "starts_with [] hay = True"
| "starts_with (n # ns) [] = False"
| "starts_with (n # ns) (h # hs) = (n = h \<and> starts_with ns hs)"

fun contains :: "string \<Rightarrow> string \<Rightarrow> bool" where
  "contains needle [] = (needle = [])"
| "contains needle (h # hs) = (starts_with needle (h # hs) \<or> contains needle hs)"

text \<open>\<open>str(n)\<close> of an integer: its decimal digits, with a minus sign when negative.\<close>

definition digit_char :: "nat \<Rightarrow> char" where
  "digit_char d = ''0123456789'' ! d"

fun digits :: "nat \<Rightarrow> string" where
  "digits n = (if n < 10 then [digit_char n] else digits (n div 10) @ [digit_char (n mod 10)])"

declare digits.simps [simp del]

definition str_int :: "int \<Rightarrow> string" where
  "str_int i = (if i < 0 then CHR ''-'' # digits (nat (- i)) else digits (nat i))"

text \<open>
  The values \<open>json.loads\<close> returns, which are also the values of a metadata dictionary.
  A \<open>dict\<close> is an association list in insertion order with distinct keys.
\<close>

datatype json =
    JNull
  | JBool bool
  | JInt int
  | JFloat string
  | JString string
  | JArray "json list"
  | JObject "(string \<times> json) list"

type_synonym dict = "(string \<times> json) list"

text \<open>Python's truth value of an object, as \<open>if x:\<close> tests it.\<close>

fun truthy :: "json \<Rightarrow> bool" where
  "truthy JNull = False"
| "truthy (JBool b) = b"
| "truthy (JInt i) = (i \<noteq> 0)"
| "truthy (JFloat r) = (r \<noteq> ''0.0'' \<and> r \<noteq> ''-0.0'')"
| "truthy (JString s) = (s \<noteq> [])"
| "truthy (JArray xs) = (xs \<noteq> [])"
| "truthy (JObject d) = (d \<noteq> [])"

text \<open>An attribute that may hold \<open>None\<close>: \<open>None\<close> is false, an object has its own truth value.\<close>

definition truthy_opt :: "json option \<Rightarrow> bool" where
  "truthy_opt x = (case x of None \<Rightarrow> False | Some v \<Rightarrow> truthy v)"

text \<open>The exceptions of the program, each with the message \<open>str(e)\<close> gives.\<close>

datatype error =
    ProviderError string
  | StorageError string
  | InvalidArgument string
  | AttributeError string
  | TypeError string
  | IndexError string
  | UnicodeEncodeError string

fun str_error :: "error \<Rightarrow> string" where
  "str_error (ProviderError m) = m"
| "str_error (StorageError m) = m"
| "str_error (InvalidArgument m) = m"
| "str_error (AttributeError m) = m"
| "str_error (TypeError m) = m"
| "str_error (IndexError m) = m"
| "str_error (UnicodeEncodeError m) = m"

text \<open>The name \<open>type(x).__name__\<close> that the message of an \<open>AttributeError\<close> shows.\<close>

fun type_name :: "json \<Rightarrow> string" where
  "type_name JNull = ''NoneType''"
| "type_name (JBool b) = ''bool''"
| "type_name (JInt i) = ''int''"
| "type_name (JFloat r) = ''float''"
| "type_name (JString s) = ''str''"
| "type_name (JArray xs) = ''list''"
| "type_name (JObject d) = ''dict''"

text \<open>
  \<open>x.get(key)\<close>: on a dictionary the value of the key, or \<open>None\<close> when the key is
  absent; every other object has no \<open>get\<close> and the call raises.
\<close>

definition dict_get :: "dict \<Rightarrow> string \<Rightarrow> json" where
  "dict_get d k = (case map_of d k of None \<Rightarrow> JNull | Some v \<Rightarrow> v)"

fun py_get :: "json \<Rightarrow> string \<Rightarrow> error + json" where
  "py_get (JObject d) k = Inr (dict_get d k)"
| "py_get v k = Inl (AttributeError (CHR 0x27 # type_name v @ [CHR 0x27] @ '' object has no attribute '' @ [CHR 0x27] @ ''get'' @ [CHR 0x27]))"

section \<open>The external collaborators\<close>

type_synonym vector = "real list"

text \<open>A record of the Chroma collection: one document with its id, embedding and metadata.\<close>

record memory_record =
  rec_id :: string
  rec_document :: string
  rec_embedding :: vector
  rec_metadata :: dict

text \<open>
  The events \<open>Runner.run\<close> yields are probed by attribute: an event with a \<open>content\<close>
  (a string, an object with \<open>parts\<close>, or anything else, \<open>None\<close> included), an event
  with a \<open>text\<close> only, or neither. \<open>parts\<close> and \<open>text\<close> may hold \<open>None\<close>.
\<close>

datatype part = TextPart "string option" | OtherPart

datatype content = StrContent string | PartsContent "part list option" | OtherContent

datatype event = ContentEvent content | TextEvent "string option" | OtherEvent

text \<open>The calls made to the collaborators, in the order they are made.\<close>

datatype call =
    Completion string
  | Embedding string
  | Uuid4
  | CollectionCount
  | CollectionAdd
  | CollectionQuery
  | RunnerRun string

text \<open>
  What the world outside the repository answers. A provider may answer the same request
  differently each time, so every answer is a function of the calls made so far.

  \<^item> \<open>completion\<close>: \<open>litellm.completion(...).choices[0].message.content\<close> for a prompt,
    \<open>None\<close> when the message has no content, or the exception the call raises;
  \<^item> \<open>embedding\<close>: \<open>litellm.embedding(...).data[0]["embedding"]\<close>, or the exception;
  \<^item> \<open>uuid4\<close>: \<open>str(uuid.uuid4())\<close>;
  \<^item> \<open>store_fault\<close>: the exception of an insert into the collection when the backing
    store is unavailable;
  \<^item> \<open>distance\<close>: the collection's distance between two embeddings;
  \<^item> \<open>runner_run\<close>: the events of \<open>Runner.run\<close> for a user message (the agent may read
    the collection through its memory tool), or the exception raised while they are drawn;
  \<^item> \<open>json_loads\<close>: \<open>json.loads\<close>, \<open>None\<close> when it raises;
  \<^item> \<open>py_repr\<close>: \<open>str()\<close> of a list or a dictionary;
  \<^item> \<open>str_lower\<close>, \<open>str_upper\<close>, \<open>str_strip\<close>: \<open>str.lower()\<close>, \<open>str.upper()\<close> and
    \<open>str.strip()\<close> of the interpreter, with its Unicode case mappings and white space;
  \<^item> \<open>print_fault\<close>: the exception of a \<open>print\<close> of a text, when the standard output
    cannot take it (a text it cannot encode, a closed stream).
\<close>

record env =
  completion :: "call list \<Rightarrow> string \<Rightarrow> error + string option"
  embedding :: "call list \<Rightarrow> string \<Rightarrow> error + vector"
  uuid4 :: "call list \<Rightarrow> string"
  store_fault :: "call list \<Rightarrow> error option"
  distance :: "vector \<Rightarrow> vector \<Rightarrow> real"
  runner_run :: "call list \<Rightarrow> memory_record list \<Rightarrow> string \<Rightarrow> error + event list"
  json_loads :: "string \<Rightarrow> json option"
  py_repr :: "json \<Rightarrow> string"
  str_lower :: "string \<Rightarrow> string"
  str_upper :: "string \<Rightarrow> string"
  str_strip :: "string \<Rightarrow> string"
  print_fault :: "call list \<Rightarrow> string \<Rightarrow> error option"

text \<open>
  The state of the program: \<open>pending_order\<close> of the agent, the records of the collection
  of its memory layer, and the calls made so far.
\<close>

record state =
  pending_order :: "json option"
  collection :: "memory_record list"
  calls :: "call list"

definition logged :: "call \<Rightarrow> state \<Rightarrow> state" where
  "logged c st = st\<lparr>calls := calls st @ [c]\<rparr>"

text \<open>\<open>str(x)\<close>, as an f-string renders a value.\<close>

fun py_str :: "env \<Rightarrow> json \<Rightarrow> string" where
  "py_str E JNull = ''None''"
| "py_str E (JBool b) = (if b then ''True'' else ''False'')"
| "py_str E (JInt i) = str_int i"
| "py_str E (JFloat r) = r"
| "py_str E (JString s) = s"
| "py_str E (JArray xs) = py_repr E (JArray xs)"
| "py_str E (JObject d) = py_repr E (JObject d)"

section \<open>The vector store\<close>

text \<open>
  The collection is a ChromaDB collection, a library outside the repository, held in the
  state as the list of its records. Its three operations are modelled from section 4.1 of
  the specification.

  Modelled from the spec: \<open>collection.count()\<close>, missing from the sources as all of
  ChromaDB is; the number of records, and never an error.
\<close>

definition collection_count :: "env \<Rightarrow> state \<Rightarrow> (error + int) \<times> state" where
  "collection_count E st = (Inr (int (length (collection st))), logged CollectionCount st)"

text \<open>
  Modelled from the spec: \<open>collection.add\<close> of one record, missing from the sources;
  "persists atomically; fails with StorageError if the backing store is unavailable". The
  record is appended, or the call raises and the collection is unchanged.
\<close>

definition collection_add :: "env \<Rightarrow> state \<Rightarrow> memory_record \<Rightarrow> (error + unit) \<times> state" where
  "collection_add E st r =
     (case store_fault E (calls st) of
        Some e \<Rightarrow> (Inl e, logged CollectionAdd st)
      | None \<Rightarrow> (Inr (), logged CollectionAdd (st\<lparr>collection := collection st @ [r]\<rparr>)))"

text \<open>
  The result of \<open>collection.query\<close> for one query embedding: each field is \<open>None\<close> or holds
  one list per query.
\<close>

record query_result =
  documents :: "string list list option"
  metadatas :: "dict list list option"
  distances :: "real list list option"

text \<open>
  Modelled from the spec: \<open>collection.query\<close> for one query embedding, missing from the
  sources; "returns up to min(k, count) nearest records by the store's native distance
  metric", nearest first, and "k <= 0 is invalid input; fails with InvalidArgument".
\<close>

definition nearest :: "env \<Rightarrow> vector \<Rightarrow> nat \<Rightarrow> memory_record list \<Rightarrow> memory_record list" where
  "nearest E qv k rs = take k (sort_key (\<lambda>r. distance E qv (rec_embedding r)) rs)"

definition collection_query :: "env \<Rightarrow> state \<Rightarrow> vector \<Rightarrow> int \<Rightarrow> (error + query_result) \<times> state" where
  "collection_query E st qv n_results =
     (if n_results \<le> 0
      then (Inl (InvalidArgument ''Number of requested results cannot be negative, or zero.''),
            logged CollectionQuery st)
      else (let hits = nearest E qv (nat n_results) (collection st)
            in (Inr \<lparr>documents = Some [map rec_document hits],
                     metadatas = Some [map rec_metadata hits],
                     distances = Some [map (\<lambda>r. distance E qv (rec_embedding r)) hits]\<rparr>,
                logged CollectionQuery st)))"

section \<open>The memory layer (memory.py)\<close>

text \<open>\<open>MemoryLayer._get_embedding\<close>.\<close>

definition get_embedding :: "env \<Rightarrow> state \<Rightarrow> string \<Rightarrow> (error + vector) \<times> state" where
  "get_embedding E st text = (embedding E (calls st) text, logged (Embedding text) st)"

text \<open>\<open>MemoryLayer._extract_facts\<close>: the prompt, the call, and \<open>content.strip()\<close>.\<close>

definition extract_prompt :: "string \<Rightarrow> string" where
  \<open>extract_prompt user_input =
     nl @ ''        Extract the key constraints, rules, or facts from the following text.''
     @ nl @ ''        Focus on numerical limits, banned items, preferred vendors, or site-specific instructions.''
     @ nl @ ''        Return ONLY the extracted facts as a single concise sentence.''
     @ nl
     @ nl @ ''        Input: "'' @ user_input @ ''"''
     @ nl @ ''        Facts:''
     @ nl @ ''        ''\<close>

definition none_has_no_strip :: error where
  "none_has_no_strip =
     AttributeError ([CHR 0x27] @ ''NoneType'' @ [CHR 0x27] @ '' object has no attribute ''
                     @ [CHR 0x27] @ ''strip'' @ [CHR 0x27])"

definition extract_facts :: "env \<Rightarrow> state \<Rightarrow> string \<Rightarrow> (error + string) \<times> state" where
  "extract_facts E st user_input =
     (let prompt = extract_prompt user_input;
          st1 = logged (Completion prompt) st
      in case completion E (calls st) prompt of
           Inl e \<Rightarrow> (Inl e, st1)
         | Inr None \<Rightarrow> (Inl none_has_no_strip, st1)
         | Inr (Some c) \<Rightarrow> (Inr (str_strip E c), st1))"

text \<open>\<open>print(text)\<close>: it writes to the standard output, or raises; the state is untouched.\<close>

definition py_print :: "env \<Rightarrow> state \<Rightarrow> string \<Rightarrow> (error + unit) \<times> state" where
  "py_print E st text =
     (case print_fault E (calls st) text of
        Some e \<Rightarrow> (Inl e, st)
      | None \<Rightarrow> (Inr (), st))"

text \<open>
  \<open>MemoryLayer.add\<close>. \<open>metadata or {}\<close> takes an absent or empty mapping to the empty one;
  the two assignments set a key in place when it is there and append it otherwise. The
  \<open>print\<close> of line 72 runs after the insert, so when it raises the record is stored.
\<close>

definition timestamp_placeholder :: string where
  "timestamp_placeholder = ''2024-01-01T12:00:00''"

definition add_metadata :: "string \<Rightarrow> dict option \<Rightarrow> dict" where
  "add_metadata user_input metadata =
     (let meta = (case metadata of None \<Rightarrow> [] | Some m \<Rightarrow> m);
          meta = AList.update ''original_input'' (JString user_input) meta;
          meta = AList.update ''timestamp'' (JString timestamp_placeholder) meta
      in meta)"

definition add :: "env \<Rightarrow> state \<Rightarrow> string \<Rightarrow> dict option \<Rightarrow> (error + string) \<times> state" where
  "add E st user_input metadata =
     (case extract_facts E st user_input of
        (Inl e, st1) \<Rightarrow> (Inl e, st1)
      | (Inr fact', st1) \<Rightarrow>
     (case get_embedding E st1 fact' of
        (Inl e, st2) \<Rightarrow> (Inl e, st2)
      | (Inr vec, st2) \<Rightarrow>
     (let new_id = uuid4 E (calls st2);
          st3 = logged Uuid4 st2;
          meta = add_metadata user_input metadata
      in case collection_add E st3
                \<lparr>rec_id = new_id, rec_document = fact', rec_embedding = vec, rec_metadata = meta\<rparr> of
           (Inl e, st4) \<Rightarrow> (Inl e, st4)
         | (Inr u, st4) \<Rightarrow>
             (case py_print E st4 (''Stored memory: '' @ fact') of
                (Inl e, st5) \<Rightarrow> (Inl e, st5)
              | (Inr u', st5) \<Rightarrow> (Inr fact', st5)))))"

text \<open>
  \<open>MemoryLayer.search\<close>. Subscripting \<open>None\<close> raises a \<open>TypeError\<close>, an index out of range
  an \<open>IndexError\<close>; a field of the result is false when it is \<open>None\<close> or empty. The key
  \<open>fact\<close> of an item is the field \<open>fact_str\<close>, and the variables \<open>fact\<close> and \<open>dist\<close> of
  the source are \<open>fact'\<close> and \<open>dist'\<close>: both names are constants of HOL.
\<close>

record mem_item =
  fact_str :: string
  metadata :: dict
  score :: real

definition index :: "'a list \<Rightarrow> nat \<Rightarrow> error + 'a" where
  "index xs i = (if i < length xs then Inr (xs ! i) else Inl (IndexError ''list index out of range''))"

definition subscript :: "'a list option \<Rightarrow> nat \<Rightarrow> error + 'a" where
  "subscript x i =
     (case x of
        None \<Rightarrow> Inl (TypeError ([CHR 0x27] @ ''NoneType'' @ [CHR 0x27] @ '' object is not subscriptable''))
      | Some xs \<Rightarrow> index xs i)"

definition field_true :: "'a list option \<Rightarrow> bool" where
  "field_true x = (case x of None \<Rightarrow> False | Some xs \<Rightarrow> xs \<noteq> [])"

text \<open>A step that may raise, followed by the rest of the computation on its value.\<close>

fun and_then :: "error + 'a \<Rightarrow> ('a \<Rightarrow> error + 'b) \<Rightarrow> error + 'b" where
  "and_then (Inl e) f = Inl e"
| "and_then (Inr x) f = f x"

definition item_at :: "query_result \<Rightarrow> nat \<Rightarrow> error + mem_item" where
  "item_at results i =
     and_then (subscript (documents results) 0) (\<lambda>docs.
     and_then (index docs i) (\<lambda>doc.
     and_then (subscript (metadatas results) 0) (\<lambda>metas.
     and_then (index metas i) (\<lambda>meta.
     and_then (if field_true (distances results)
               then and_then (subscript (distances results) 0) (\<lambda>dists. index dists i)
               else Inr 0) (\<lambda>dist'.
     Inr \<lparr>fact_str = doc, metadata = meta, score = dist'\<rparr>)))))"

fun retrieve :: "query_result \<Rightarrow> nat list \<Rightarrow> mem_item list \<Rightarrow> error + mem_item list" where
  "retrieve results [] retrieved_memories = Inr retrieved_memories"
| "retrieve results (i # rest) retrieved_memories =
     (case item_at results i of
        Inl e \<Rightarrow> Inl e
      | Inr item \<Rightarrow> retrieve results rest (retrieved_memories @ [item]))"

definition reformat :: "query_result \<Rightarrow> error + mem_item list" where
  "reformat results =
     (if field_true (documents results)
      then (case subscript (documents results) 0 of
              Inl e \<Rightarrow> Inl e
            | Inr docs \<Rightarrow> retrieve results [0..<length docs] [])
      else Inr [])"

definition search :: "env \<Rightarrow> state \<Rightarrow> string \<Rightarrow> int \<Rightarrow> (error + mem_item list) \<times> state" where
  "search E st query limit =
     (case collection_count E st of
        (Inl e, st1) \<Rightarrow> (Inl e, st1)
      | (Inr count, st1) \<Rightarrow>
     (if count = 0 then (Inr [], st1)
      else case get_embedding E st1 query of
        (Inl e, st2) \<Rightarrow> (Inl e, st2)
      | (Inr query_vector, st2) \<Rightarrow>
     (case collection_query E st2 query_vector (min limit count) of
        (Inl e, st3) \<Rightarrow> (Inl e, st3)
      | (Inr results, st3) \<Rightarrow>
     (case reformat results of
        Inl e \<Rightarrow> (Inl e, st3)
      | Inr retrieved_memories \<Rightarrow> (Inr retrieved_memories, st3)))))"

section \<open>The agent (agent.py)\<close>

datatype intent = APPROVAL_REPLY | STORE_FACT | PROCUREMENT_REQUEST | CHAT

text \<open>The dictionary \<open>process_message\<close> returns.\<close>

record reply =
  response :: string
  reasoning :: string

definition check_mark :: string where
  "check_mark = [CHR 0xE2, CHR 0x9C, CHR 0x85]"

definition warning_sign :: string where
  "warning_sign = [CHR 0xE2, CHR 0x9A, CHR 0xA0, CHR 0xEF, CHR 0xB8, CHR 0x8F]"

definition cross_mark :: string where
  "cross_mark = [CHR 0xE2, CHR 0x9D, CHR 0x8C]"

text \<open>
  \<open>get_intent\<close>. Every exception of the \<open>try\<close> block, the \<open>AttributeError\<close> of a reply
  without content included, is answered by \<open>CHAT\<close>.
\<close>

definition classify_prompt :: "string \<Rightarrow> string" where
  \<open>classify_prompt user_input =
     nl @ ''        Classify the following user input into one of these categories:''
     @ nl @ ''        1. STORE_FACT: The user is defining a rule, limit, preference, or fact about a site.''
     @ nl @ ''        2. PROCUREMENT_REQUEST: The user is asking to buy, order, or procure something.''
     @ nl @ ''        3. CHAT: General conversation (hello, thanks, etc.).''
     @ nl
     @ nl @ ''        Input: "'' @ user_input @ ''"''
     @ nl @ ''        ''
     @ nl @ ''        Return ONLY the Category Name (STORE_FACT, PROCUREMENT_REQUEST, or CHAT).''
     @ nl @ ''        ''\<close>

definition get_intent :: "env \<Rightarrow> state \<Rightarrow> string \<Rightarrow> intent \<times> state" where
  "get_intent E st user_input =
     (if truthy_opt (pending_order st) then (APPROVAL_REPLY, st)
      else
        (let prompt = classify_prompt user_input;
             st1 = logged (Completion prompt) st
         in case completion E (calls st) prompt of
              Inl e \<Rightarrow> (CHAT, st1)
            | Inr None \<Rightarrow> (CHAT, st1)
            | Inr (Some c) \<Rightarrow>
                (let intent = str_upper E (str_strip E c)
                 in if contains ''STORE_FACT'' intent then (STORE_FACT, st1)
                    else if contains ''PROCUREMENT'' intent then (PROCUREMENT_REQUEST, st1)
                    else (CHAT, st1))))"

text \<open>
  \<open>handle_approval\<close>. The pending order is cleared before the reply is built, so it is
  cleared also when \<open>order.get\<close> raises.
\<close>

definition affirmative :: "string list" where
  "affirmative = [''yes'', ''y'', ''approve'', ''ok'']"

definition handle_approval :: "env \<Rightarrow> state \<Rightarrow> string \<Rightarrow> (error + reply) \<times> state" where
  "handle_approval E st user_input =
     (if str_lower E user_input \<in> set affirmative
      then
        (let order = (case pending_order st of None \<Rightarrow> JNull | Some j \<Rightarrow> j);
             st1 = st\<lparr>pending_order := None\<rparr>
         in case py_get order ''selected_vendor'' of
              Inl e \<Rightarrow> (Inl e, st1)
            | Inr vendor \<Rightarrow>
                (Inr \<lparr>response = check_mark @ '' **Order Confirmed**.'' @ nl
                                 @ ''Placed order with '' @ py_str E vendor @ ''.'',
                      reasoning = ''User manually approved.''\<rparr>, st1))
      else
        (Inr \<lparr>response = cross_mark @ ''Order Cancelled.'', reasoning = ''User denied.''\<rparr>,
         st\<lparr>pending_order := None\<rparr>))"

text \<open>
  \<open>extract_json\<close>. \<open>re.search(r"\{.*\}", text, re.DOTALL)\<close> matches at the first opening
  brace that has a closing brace after it, and the greedy \<open>.*\<close> runs to the last closing
  brace of the text: the match is the text from its first \<open>{\<close> to its last \<open>}\<close>. Every
  exception of \<open>json.loads\<close> gives \<open>None\<close>.
\<close>

definition re_search_braces :: "string \<Rightarrow> string option" where
  "re_search_braces text =
     (case dropWhile (\<lambda>c. c \<noteq> CHR ''{'') text of
        [] \<Rightarrow> None
      | c # body \<Rightarrow>
          if CHR ''}'' \<in> set body
          then Some (c # rev (dropWhile (\<lambda>c. c \<noteq> CHR ''}'') (rev body)))
          else None)"

definition extract_json :: "env \<Rightarrow> string \<Rightarrow> json option" where
  "extract_json E text =
     (case re_search_braces text of
        None \<Rightarrow> None
      | Some m \<Rightarrow> json_loads E m)"

text \<open>
  The loop over the events of the runner. An exception while an event is read (iterating
  \<open>parts\<close> that is \<open>None\<close>) is logged by the inner handler and the event adds nothing.
\<close>

fun part_text :: "part \<Rightarrow> string" where
  "part_text (TextPart None) = []"
| "part_text (TextPart (Some s)) = s"
| "part_text OtherPart = []"

fun event_text :: "event \<Rightarrow> string" where
  "event_text (ContentEvent (StrContent s)) = s"
| "event_text (ContentEvent (PartsContent None)) = []"
| "event_text (ContentEvent (PartsContent (Some ps))) = concat (map part_text ps)"
| "event_text (ContentEvent OtherContent) = []"
| "event_text (TextEvent None) = []"
| "event_text (TextEvent (Some s)) = s"
| "event_text OtherEvent = []"

definition accumulate :: "event list \<Rightarrow> string" where
  "accumulate events = foldl (\<lambda>response_text ev. response_text @ event_text ev) [] events"

text \<open>The replies of \<open>process_message\<close>.\<close>

definition error_reply :: "error \<Rightarrow> reply" where
  "error_reply e = \<lparr>response = ''Error: '' @ str_error e, reasoning = str_error e\<rparr>"

definition approval_required :: "env \<Rightarrow> json \<Rightarrow> error + string" where
  "approval_required E json_data =
     and_then (py_get json_data ''reasoning'') (\<lambda>reason.
     and_then (py_get json_data ''total_cost'') (\<lambda>cost.
     Inr (warning_sign @ '' **Approval Required**'' @ nl @ ''Reason: '' @ py_str E reason @ nl
          @ ''Cost: '' @ py_str E cost @ nl @ ''Proceed? (y/n)'')))"

definition order_placed :: "env \<Rightarrow> json \<Rightarrow> error + string" where
  "order_placed E json_data =
     and_then (py_get json_data ''selected_vendor'') (\<lambda>vendor.
     and_then (py_get json_data ''total_cost'') (\<lambda>cost.
     and_then (py_get json_data ''reasoning'') (\<lambda>reason.
     Inr (check_mark @ '' **Order Placed**'' @ nl @ ''Vendor: '' @ py_str E vendor @ nl
          @ ''Cost: '' @ py_str E cost @ nl @ ''Reason: '' @ py_str E reason))))"

text \<open>
  The branch of \<open>process_message\<close> for \<open>PROCUREMENT_REQUEST\<close> and \<open>CHAT\<close> (lines 125 to
  189): the run of the agent, the decision block and the handler of the \<open>try\<close> block,
  which turns every exception into an error reply.
\<close>

definition run_agent :: "env \<Rightarrow> state \<Rightarrow> string \<Rightarrow> (error + reply) \<times> state" where
  "run_agent E st user_input =
     (let st1 = logged (RunnerRun user_input) st
      in case runner_run E (calls st) (collection st) user_input of
           Inl e \<Rightarrow> (Inr (error_reply e), st1)
         | Inr events \<Rightarrow>
     (let response_text = accumulate events;
          log = ''ADK Agent Response:'' @ nl @ response_text;
          json_data = extract_json E response_text
      in if truthy_opt json_data
         then
           (let block = (case json_data of None \<Rightarrow> JNull | Some j \<Rightarrow> j)
            in case py_get block ''status'' of
                 Inl e \<Rightarrow> (Inr (error_reply e), st1)
               | Inr status \<Rightarrow>
                   if status = JString ''PAUSE_APPROVAL_NEEDED''
                   then
                     (let st2 = st1\<lparr>pending_order := json_data\<rparr>
                      in case approval_required E block of
                           Inl e \<Rightarrow> (Inr (error_reply e), st2)
                         | Inr text \<Rightarrow> (Inr \<lparr>response = text, reasoning = log\<rparr>, st2))
                   else
                     (case order_placed E block of
                        Inl e \<Rightarrow> (Inr (error_reply e), st1)
                      | Inr text \<Rightarrow> (Inr \<lparr>response = text, reasoning = log\<rparr>, st1)))
         else (Inr \<lparr>response = response_text, reasoning = log\<rparr>, st1)))"

text \<open>\<open>process_message\<close>. An exception of \<open>memory.add\<close> is not caught.\<close>

definition process_message :: "env \<Rightarrow> state \<Rightarrow> string \<Rightarrow> (error + reply) \<times> state" where
  "process_message E st user_input =
     (case get_intent E st user_input of
        (APPROVAL_REPLY, st1) \<Rightarrow> handle_approval E st1 user_input
      | (STORE_FACT, st1) \<Rightarrow>
          (case add E st1 user_input None of
             (Inl e, st2) \<Rightarrow> (Inl e, st2)
           | (Inr fact', st2) \<Rightarrow>
               (Inr \<lparr>response = check_mark @ '' Learned: '' @ fact',
                     reasoning = ''Action: INGESTION via MemoryLayer''\<rparr>, st2))
      | (PROCUREMENT_REQUEST, st1) \<Rightarrow> run_agent E st1 user_input
      | (CHAT, st1) \<Rightarrow> run_agent E st1 user_input)"

section \<open>The decision block in the words of the specification\<close>

text \<open>
  The specification describes the decision block as "the last balanced brace-delimited
  region that parses as the expected object". The regions of a text that open with a brace
  and close with the brace matching it are listed in the order in which they close; the
  block of the specification is the last of them that decodes to an object.
\<close>

fun regions :: "string list \<Rightarrow> string \<Rightarrow> string list" where
  "regions opened [] = []"
| "regions opened (c # cs) =
     (let opened1 = map ((#) c) opened
      in if c = CHR ''{'' then regions ([c] # opened1) cs
         else if c = CHR ''}'' then
           (case opened1 of
              [] \<Rightarrow> regions [] cs
            | innermost # outer \<Rightarrow> rev innermost # regions outer cs)
         else regions opened1 cs)"

definition balanced_regions :: "string \<Rightarrow> string list" where
  "balanced_regions text = regions [] text"

fun is_object :: "json option \<Rightarrow> bool" where
  "is_object (Some (JObject d)) = True"
| "is_object other = False"

definition last_wellformed_object :: "(string \<Rightarrow> json option) \<Rightarrow> string \<Rightarrow> json option" where
  "last_wellformed_object loads text =
     (case filter (\<lambda>r. is_object (loads r)) (balanced_regions text) of
        [] \<Rightarrow> None
      | r # rs \<Rightarrow> loads (last (r # rs)))"

section \<open>A decoder and an environment for the examples\<close>

text \<open>
  The examples below run the program against a concrete environment. Its decoder reads
  the JSON texts made of objects, arrays, strings without escapes, integers and the three
  literals, as \<open>json.loads\<close> reads them (a repeated key keeps its first place and its
  last value); it gives \<open>None\<close> on every other text, also on the texts with escapes,
  fractions or exponents that \<open>json.loads\<close> accepts, and no example uses one of those.
\<close>

definition is_json_ws :: "char \<Rightarrow> bool" where
  "is_json_ws c = (c = CHR '' '' \<or> c = CHR 0x09 \<or> c = CHR 0x0A \<or> c = CHR 0x0D)"

definition skip_ws :: "string \<Rightarrow> string" where
  "skip_ws s = dropWhile is_json_ws s"

fun scan_string :: "string \<Rightarrow> string \<Rightarrow> (string \<times> string) option" where
  "scan_string acc [] = None"
| "scan_string acc (c # cs) =
     (if c = CHR 0x22 then Some (rev acc, cs)
      else if c = CHR 0x5C \<or> (of_char c :: nat) < 32 then None
      else scan_string (c # acc) cs)"

definition is_digit :: "char \<Rightarrow> bool" where
  "is_digit c = (let n = (of_char c :: nat) in 48 \<le> n \<and> n \<le> 57)"

definition digits_value :: "string \<Rightarrow> nat" where
  "digits_value ds = foldl (\<lambda>v c. 10 * v + ((of_char c :: nat) - 48)) 0 ds"

definition scan_nat :: "string \<Rightarrow> (nat \<times> string) option" where
  "scan_nat s =
     (let ds = takeWhile is_digit s; r = dropWhile is_digit s
      in if ds = [] then None
         else if hd ds = CHR ''0'' \<and> tl ds \<noteq> [] then Some (0, tl ds @ r)
         else if r \<noteq> [] \<and> hd r \<in> set ''.eE'' then None
         else Some (digits_value ds, r))"

definition scan_int :: "string \<Rightarrow> (json \<times> string) option" where
  "scan_int s =
     (if starts_with ''-'' s
      then (case scan_nat (tl s) of None \<Rightarrow> None | Some (n, r) \<Rightarrow> Some (JInt (- int n), r))
      else (case scan_nat s of None \<Rightarrow> None | Some (n, r) \<Rightarrow> Some (JInt (int n), r)))"

fun parse_value :: "nat \<Rightarrow> string \<Rightarrow> (json \<times> string) option"
and parse_members :: "nat \<Rightarrow> dict \<Rightarrow> string \<Rightarrow> (json \<times> string) option"
and parse_elements :: "nat \<Rightarrow> json list \<Rightarrow> string \<Rightarrow> (json \<times> string) option" where
  "parse_value 0 s = None"
| "parse_value (Suc n) s =
     (if starts_with ''{'' s then
        (let r = skip_ws (tl s)
         in if starts_with ''}'' r then Some (JObject [], tl r) else parse_members n [] r)
      else if starts_with ''['' s then
        (let r = skip_ws (tl s)
         in if starts_with '']'' r then Some (JArray [], tl r) else parse_elements n [] r)
      else if starts_with [CHR 0x22] s then
        (case scan_string [] (tl s) of None \<Rightarrow> None | Some (v, r) \<Rightarrow> Some (JString v, r))
      else if starts_with ''null'' s then Some (JNull, drop 4 s)
      else if starts_with ''true'' s then Some (JBool True, drop 4 s)
      else if starts_with ''false'' s then Some (JBool False, drop 5 s)
      else scan_int s)"
| "parse_members 0 acc s = None"
| "parse_members (Suc n) acc s =
     (if starts_with [CHR 0x22] s then
        (case scan_string [] (tl s) of
           None \<Rightarrow> None
         | Some (key, r1) \<Rightarrow>
             (let r2 = skip_ws r1
              in if starts_with '':'' r2 then
                   (case parse_value n (skip_ws (tl r2)) of
                      None \<Rightarrow> None
                    | Some (v, r3) \<Rightarrow>
                        (let acc' = AList.update key v acc; r4 = skip_ws r3
                         in if starts_with '','' r4 then parse_members n acc' (skip_ws (tl r4))
                            else if starts_with ''}'' r4 then Some (JObject acc', tl r4)
                            else None))
                 else None))
      else None)"
| "parse_elements 0 acc s = None"
| "parse_elements (Suc n) acc s =
     (case parse_value n s of
        None \<Rightarrow> None
      | Some (v, r) \<Rightarrow>
          (let acc' = acc @ [v]; r1 = skip_ws r
           in if starts_with '','' r1 then parse_elements n acc' (skip_ws (tl r1))
              else if starts_with '']'' r1 then Some (JArray acc', tl r1)
              else None))"

definition json_decode :: "string \<Rightarrow> json option" where
  "json_decode s =
     (case parse_value (Suc (length s)) (skip_ws s) of
        None \<Rightarrow> None
      | Some (v, r) \<Rightarrow> if skip_ws r = [] then Some v else None)"

text \<open>
  The case mappings and the stripping of the example environment: those of Python on the
  texts of ASCII characters, which are the only texts the examples give them.
\<close>

definition upper_letters :: string where
  "upper_letters = ''ABCDEFGHIJKLMNOPQRSTUVWXYZ''"

definition lower_letters :: string where
  "lower_letters = ''abcdefghijklmnopqrstuvwxyz''"

definition lower_char :: "char \<Rightarrow> char" where
  "lower_char c = (case map_of (zip upper_letters lower_letters) c of None \<Rightarrow> c | Some l \<Rightarrow> l)"

definition upper_char :: "char \<Rightarrow> char" where
  "upper_char c = (case map_of (zip lower_letters upper_letters) c of None \<Rightarrow> c | Some u \<Rightarrow> u)"

definition ascii_lower :: "string \<Rightarrow> string" where
  "ascii_lower s = map lower_char s"

definition ascii_upper :: "string \<Rightarrow> string" where
  "ascii_upper s = map upper_char s"

definition is_space :: "char \<Rightarrow> bool" where
  "is_space c = (let n = (of_char c :: nat) in (9 \<le> n \<and> n \<le> 13) \<or> (28 \<le> n \<and> n \<le> 32))"

definition ascii_strip :: "string \<Rightarrow> string" where
  "ascii_strip s = rev (dropWhile is_space (rev (dropWhile is_space s)))"

text \<open>The squared Euclidean distance, the default of a Chroma collection.\<close>

definition squared_l2 :: "vector \<Rightarrow> vector \<Rightarrow> real" where
  "squared_l2 u v = sum_list (map (\<lambda>(x, y). (x - y) * (x - y)) (zip u v))"

text \<open>
  The environment of a scenario: the model answers every prompt with \<open>model_reply\<close>, the
  agent's run yields one event whose content has the single text part \<open>agent_text\<close>,
  every text is embedded as \<open>embedded\<close>, the store is available and the standard output
  takes every text.
\<close>

definition scenario :: "string \<Rightarrow> string \<Rightarrow> vector \<Rightarrow> env" where
  "scenario model_reply agent_text embedded =
     \<lparr>completion = (\<lambda>h prompt. Inr (Some model_reply)),
      embedding = (\<lambda>h text. Inr embedded),
      uuid4 = (\<lambda>h. ''memory-'' @ str_int (int (length h))),
      store_fault = (\<lambda>h. None),
      distance = squared_l2,
      runner_run = (\<lambda>h records user_input.
                      Inr [ContentEvent (PartsContent (Some [TextPart (Some agent_text)]))]),
      json_loads = json_decode,
      py_repr = (\<lambda>v. []),
      str_lower = ascii_lower,
      str_upper = ascii_upper,
      str_strip = ascii_strip,
      print_fault = (\<lambda>h text. None)\<rparr>"

definition idle :: state where
  "idle = \<lparr>pending_order = None, collection = [], calls = []\<rparr>"

text \<open>A store that holds one memory, and an environment whose embedding provider is down.\<close>

definition cement_limit :: memory_record where
  "cement_limit =
     \<lparr>rec_id = ''memory-2'', rec_document = ''Cement purchase limit is 50,000'',
      rec_embedding = [1, 0],
      rec_metadata = [(''original_input'', JString ''Limit is 50k for cement''),
                      (''timestamp'', JString ''2024-01-01T12:00:00'')]\<rparr>"

definition remembering :: state where
  "remembering = idle\<lparr>collection := [cement_limit]\<rparr>"

definition embedding_down :: env where
  "embedding_down =
     (scenario ''Steel is banned'' [] [1, 0])\<lparr>embedding := (\<lambda>h text. Inl (ProviderError ''rate limit''))\<rparr>"

text \<open>The item \<open>search\<close> builds for a record the query returned.\<close>

definition hit_item :: "env \<Rightarrow> vector \<Rightarrow> memory_record \<Rightarrow> mem_item" where
  "hit_item E qv r =
     \<lparr>fact_str = rec_document r, metadata = rec_metadata r,
      score = distance E qv (rec_embedding r)\<rparr>"

text \<open>A store that holds two memories.\<close>

definition steel_ban :: memory_record where
  "steel_ban =
     \<lparr>rec_id = ''memory-6'', rec_document = ''Steel from Acme is banned at the Mumbai site'',
      rec_embedding = [0, 1], rec_metadata = []\<rparr>"

definition two_memories :: state where
  "two_memories = idle\<lparr>collection := [cement_limit, steel_ban]\<rparr>"

text \<open>The sequence a call returned, empty when it raised.\<close>

definition the_results :: "(error + mem_item list) \<times> state \<Rightarrow> mem_item list" where
  "the_results r = (case fst r of Inl e \<Rightarrow> [] | Inr items \<Rightarrow> items)"

text \<open>
  Texts an agent may answer with, and the blocks they hold: one that asks for approval, one
  that places the order, one whose status is not of the enumeration, and one with braces
  in the prose before the block.
\<close>

definition pause_block :: dict where
  "pause_block =
     [(''selected_vendor'', JString ''BuildMart''), (''price_per_unit'', JInt 300),
      (''total_cost'', JInt 60000), (''status'', JString ''PAUSE_APPROVAL_NEEDED''),
      (''reasoning'', JString ''Total cost 60000 exceeds the limit of 50000'')]"

definition pause_json :: string where
  \<open>pause_json =
     ''{"selected_vendor": "BuildMart", "price_per_unit": 300, "total_cost": 60000, ''
     @ ''"status": "PAUSE_APPROVAL_NEEDED", "reasoning": "Total cost 60000 exceeds the limit of 50000"}''\<close>

definition pause_text :: string where
  "pause_text =
     ''The total of 60000 is above the remembered limit.'' @ nl @ ''```json'' @ nl
     @ pause_json @ nl @ ''```''"

definition order_block :: dict where
  "order_block =
     [(''selected_vendor'', JString ''BuildMart''), (''price_per_unit'', JInt 200),
      (''total_cost'', JInt 40000), (''status'', JString ''ORDER_PLACED''),
      (''reasoning'', JString ''Within the limit of 50000'')]"

definition order_text :: string where
  \<open>order_text =
     ''BuildMart is within the limit.'' @ nl @ ''```json'' @ nl
     @ ''{"selected_vendor": "BuildMart", "price_per_unit": 200, "total_cost": 40000, ''
     @ ''"status": "ORDER_PLACED", "reasoning": "Within the limit of 50000"}''
     @ nl @ ''```''\<close>

definition unknown_status_text :: string where
  \<open>unknown_status_text = ''{"status": "DONE"}''\<close>

definition two_brace_text :: string where
  "two_brace_text = ''The limit {50000} is exceeded. '' @ pause_json"

text \<open>The state that holds the pending order of \<open>pause_text\<close>.\<close>

definition awaiting_approval :: state where
  "awaiting_approval = idle\<lparr>pending_order := Some (JObject pause_block)\<rparr>"

text \<open>Environments whose agent run, or whose classification call, raises.\<close>

definition agent_down :: env where
  "agent_down =
     (scenario ''PROCUREMENT_REQUEST'' [] [1, 0])
       \<lparr>runner_run := (\<lambda>h records user_input. Inl (ProviderError ''model unavailable''))\<rparr>"


text \<open>
  The state after the classification call for an input, and the events of a run that says
  one text.
\<close>

definition asked :: "string \<Rightarrow> state \<Rightarrow> state" where
  "asked user_input st = st\<lparr>calls := calls st @ [Completion (classify_prompt user_input)]\<rparr>"

definition said :: "string \<Rightarrow> event list" where
  "said agent_text = [ContentEvent (PartsContent (Some [TextPart (Some agent_text)]))]"

text \<open>
  A pending order as \<open>process_message\<close> creates it: a block whose status asks for
  approval. The state is well formed when its pending order is absent or such a block.
\<close>

fun approval_block :: "json \<Rightarrow> bool" where
  "approval_block (JObject d) = (dict_get d ''status'' = JString ''PAUSE_APPROVAL_NEEDED'')"
| "approval_block other = False"

definition pending_ok :: "state \<Rightarrow> bool" where
  "pending_ok st = (case pending_order st of None \<Rightarrow> True | Some block \<Rightarrow> approval_block block)"

text \<open>
  An environment whose standard output encodes ASCII only, and whose model states the limit
  with the rupee sign (U+20B9, three bytes in UTF-8): the \<open>print\<close> of that fact raises.
\<close>

definition rupee_sign :: string where
  "rupee_sign = [CHR 0xE2, CHR 0x82, CHR 0xB9]"

definition rupee_fact :: string where
  "rupee_fact = ''Cement purchase limit is '' @ rupee_sign @ ''50,000''"

definition cannot_encode :: error where
  "cannot_encode = UnicodeEncodeError ''codec cannot encode the character: it maps to <undefined>''"

definition ascii_stdout :: env where
  "ascii_stdout =
     (scenario rupee_fact [] [1, 0])
       \<lparr>print_fault := (\<lambda>h text. if list_ex (\<lambda>c. 128 \<le> (of_char c :: nat)) text
                                  then Some cannot_encode else None)\<rparr>"

section \<open>The memory layer: what \<open>add\<close> does\<close>

text \<open>\<open>add\<close> with its three steps written out.\<close>

lemma add_unfolded:
  "add E st user_input md =
     (let p = extract_prompt user_input; h1 = calls st @ [Completion p] in
      case completion E (calls st) p of
        Inl e \<Rightarrow> (Inl e, st\<lparr>calls := h1\<rparr>)
      | Inr None \<Rightarrow> (Inl none_has_no_strip, st\<lparr>calls := h1\<rparr>)
      | Inr (Some c) \<Rightarrow>
         (let f = str_strip E c; h4 = h1 @ [Embedding f, Uuid4, CollectionAdd] in
          case embedding E h1 f of
            Inl e \<Rightarrow> (Inl e, st\<lparr>calls := h1 @ [Embedding f]\<rparr>)
          | Inr vec \<Rightarrow>
             (case store_fault E (h1 @ [Embedding f, Uuid4]) of
                Some e \<Rightarrow> (Inl e, st\<lparr>calls := h4\<rparr>)
              | None \<Rightarrow>
                  ((case print_fault E h4 (''Stored memory: '' @ f) of
                      Some e \<Rightarrow> Inl e
                    | None \<Rightarrow> Inr f),
                   st\<lparr>collection := collection st @
                        [\<lparr>rec_id = uuid4 E (h1 @ [Embedding f]), rec_document = f,
                          rec_embedding = vec, rec_metadata = add_metadata user_input md\<rparr>],
                      calls := h4\<rparr>))))"
  by (simp add: add_def extract_facts_def get_embedding_def collection_add_def py_print_def
                logged_def Let_def
           split: sum.splits option.splits)

text \<open>
  Claim C1, as the code has it. When the extraction, the embedding or the insert fails,
  \<open>add\<close> raises that exception and the collection is the one before the call. When the
  three succeed, the collection is the old one with exactly one new record, whose document
  is the extracted fact, and \<open>add\<close> returns the fact unless the \<open>print\<close> that follows the
  insert raises; then \<open>add\<close> raises with the record stored. So \<open>add\<close> returns only with
  one record stored, and it raises with none stored or, after a failed \<open>print\<close>, with one.
\<close>

theorem add_writes_only_in_insert:
  "(\<forall>e. fst (extract_facts E st user_input) = Inl e \<longrightarrow>
        fst (add E st user_input md) = Inl e
        \<and> collection (snd (add E st user_input md)) = collection st)
   \<and> (\<forall>f st1 e. extract_facts E st user_input = (Inr f, st1)
           \<and> fst (get_embedding E st1 f) = Inl e \<longrightarrow>
        fst (add E st user_input md) = Inl e
        \<and> collection (snd (add E st user_input md)) = collection st)
   \<and> (\<forall>f st1 v st2 r e. extract_facts E st user_input = (Inr f, st1)
           \<and> get_embedding E st1 f = (Inr v, st2)
           \<and> fst (collection_add E (logged Uuid4 st2) r) = Inl e \<longrightarrow>
        fst (add E st user_input md) = Inl e
        \<and> collection (snd (add E st user_input md)) = collection st)
   \<and> (\<forall>f st1 v st2 r st3. extract_facts E st user_input = (Inr f, st1)
           \<and> get_embedding E st1 f = (Inr v, st2)
           \<and> collection_add E (logged Uuid4 st2) r = (Inr (), st3) \<longrightarrow>
        (\<exists>r'. collection (snd (add E st user_input md)) = collection st @ [r']
              \<and> rec_document r' = f)
        \<and> fst (add E st user_input md)
            = (case print_fault E (calls st3) (''Stored memory: '' @ f) of
                 None \<Rightarrow> Inr f
               | Some e \<Rightarrow> Inl e))
   \<and> (case add E st user_input md of
        (Inr f, st') \<Rightarrow>
          fst (extract_facts E st user_input) = Inr f
          \<and> (\<exists>r. collection st' = collection st @ [r] \<and> rec_document r = f)
      | (Inl e, st') \<Rightarrow>
          collection st' = collection st
          \<or> (\<exists>f r. fst (extract_facts E st user_input) = Inr f
                  \<and> print_fault E (calls st') (''Stored memory: '' @ f) = Some e
                  \<and> collection st' = collection st @ [r] \<and> rec_document r = f))"
proof (intro conjI allI impI)
  fix e
  assume "fst (extract_facts E st user_input) = Inl e"
  then show "fst (add E st user_input md) = Inl e"
    and "collection (snd (add E st user_input md)) = collection st"
    by (auto simp add: add_unfolded extract_facts_def Let_def split: sum.splits option.splits)
next
  fix f st1 e
  assume "extract_facts E st user_input = (Inr f, st1) \<and> fst (get_embedding E st1 f) = Inl e"
  then show "fst (add E st user_input md) = Inl e"
    and "collection (snd (add E st user_input md)) = collection st"
    by (auto simp add: add_unfolded extract_facts_def get_embedding_def logged_def Let_def
             split: sum.splits option.splits)
next
  fix f st1 v st2 r e
  assume "extract_facts E st user_input = (Inr f, st1) \<and> get_embedding E st1 f = (Inr v, st2)
          \<and> fst (collection_add E (logged Uuid4 st2) r) = Inl e"
  then show "fst (add E st user_input md) = Inl e"
    and "collection (snd (add E st user_input md)) = collection st"
    by (auto simp add: add_unfolded extract_facts_def get_embedding_def collection_add_def
                       logged_def Let_def
             split: sum.splits option.splits)
next
  fix f st1 v st2 r st3
  assume "extract_facts E st user_input = (Inr f, st1) \<and> get_embedding E st1 f = (Inr v, st2)
          \<and> collection_add E (logged Uuid4 st2) r = (Inr (), st3)"
  then show "\<exists>r'. collection (snd (add E st user_input md)) = collection st @ [r']
                 \<and> rec_document r' = f"
    and "fst (add E st user_input md)
            = (case print_fault E (calls st3) (''Stored memory: '' @ f) of
                 None \<Rightarrow> Inr f
               | Some e \<Rightarrow> Inl e)"
    by (auto simp add: add_unfolded extract_facts_def get_embedding_def collection_add_def
                       logged_def Let_def
             split: sum.splits option.splits)
next
  show "case add E st user_input md of
        (Inr f, st') \<Rightarrow>
          fst (extract_facts E st user_input) = Inr f
          \<and> (\<exists>r. collection st' = collection st @ [r] \<and> rec_document r = f)
      | (Inl e, st') \<Rightarrow>
          collection st' = collection st
          \<or> (\<exists>f r. fst (extract_facts E st user_input) = Inr f
                  \<and> print_fault E (calls st') (''Stored memory: '' @ f) = Some e
                  \<and> collection st' = collection st @ [r] \<and> rec_document r = f)"
    by (auto simp add: add_unfolded extract_facts_def Let_def split: sum.splits option.splits)
qed

theorem add_writes_only_in_insert_witness:
  "fst (add (scenario ''Cement purchase limit is 50,000'' [] [1, 0]) idle
            ''Limit is 50k for cement'' None)
     = Inr ''Cement purchase limit is 50,000''
   \<and> collection (snd (add (scenario ''Cement purchase limit is 50,000'' [] [1, 0]) idle
                          ''Limit is 50k for cement'' None)) = [cement_limit]
   \<and> fst (get_embedding embedding_down
             (snd (extract_facts embedding_down remembering ''No steel'')) ''Steel is banned'')
     = Inl (ProviderError ''rate limit'')
   \<and> fst (add embedding_down remembering ''No steel'' None) = Inl (ProviderError ''rate limit'')
   \<and> collection (snd (add embedding_down remembering ''No steel'' None)) = [cement_limit]"
  using add_writes_only_in_insert
          [where E = "scenario ''Cement purchase limit is 50,000'' [] [1, 0]" and st = idle
             and user_input = "''Limit is 50k for cement''" and md = None]
        add_writes_only_in_insert
          [where E = embedding_down and st = remembering and user_input = "''No steel''"
             and md = None]
  by (simp add: add_unfolded scenario_def idle_def remembering_def embedding_down_def
                cement_limit_def add_metadata_def timestamp_placeholder_def
                get_embedding_def extract_facts_def ascii_strip_def is_space_def str_int_def
                digits.simps digit_char_def Let_def)

text \<open>
  Claim C1 as stated fails when the \<open>print\<close> after the insert raises: on a standard
  output that cannot encode the rupee sign of the extracted fact, \<open>add\<close> raises and the
  collection, empty before the call, holds the new record.
\<close>

theorem add_raises_after_insert_counterexample:
  "fst (add ascii_stdout idle ''Limit is 50k rupees for cement'' None) = Inl cannot_encode
   \<and> collection idle = []
   \<and> map rec_document
        (collection (snd (add ascii_stdout idle ''Limit is 50k rupees for cement'' None)))
     = [rupee_fact]"
  by (simp add: add_unfolded ascii_stdout_def scenario_def idle_def rupee_fact_def
                rupee_sign_def ascii_strip_def is_space_def Let_def)

text \<open>
  Claim C8 (what the code stores). When \<open>add\<close> succeeds, the one new record has the id
  that \<open>uuid4\<close> gave and, as metadata, the supplied mapping with \<open>original_input\<close> set to
  the user input and \<open>timestamp\<close> set to a fixed text, the same in every call, whatever
  the environment and the moment of the call are: the code never reads a clock.
\<close>

theorem add_timestamp_is_placeholder:
  "add E st user_input md = (Inr f, st') \<Longrightarrow>
     \<exists>r. collection st' = collection st @ [r]
       \<and> rec_id r = uuid4 E (calls st @ [Completion (extract_prompt user_input), Embedding f])
       \<and> map_of (rec_metadata r)
           = (map_of (case md of None \<Rightarrow> [] | Some m \<Rightarrow> m))
               (''original_input'' \<mapsto> JString user_input,
                ''timestamp'' \<mapsto> JString ''2024-01-01T12:00:00'')"
  by (auto simp add: add_unfolded add_metadata_def timestamp_placeholder_def Let_def update_conv'
                     fun_eq_iff
           split: sum.splits option.splits if_splits)

theorem add_timestamp_is_placeholder_witness:
  "add (scenario ''Cement purchase limit is 50,000'' [] [1, 0]) idle ''Limit is 50k for cement'' None
     = (Inr ''Cement purchase limit is 50,000'',
        \<lparr>pending_order = None, collection = [cement_limit],
         calls = [Completion (extract_prompt ''Limit is 50k for cement''),
                  Embedding ''Cement purchase limit is 50,000'', Uuid4, CollectionAdd]\<rparr>)
   \<and> map_of (rec_metadata cement_limit) ''timestamp'' = Some (JString ''2024-01-01T12:00:00'')"
  using add_timestamp_is_placeholder
          [where E = "scenario ''Cement purchase limit is 50,000'' [] [1, 0]" and st = idle
             and user_input = "''Limit is 50k for cement''" and md = None]
  by (simp add: add_unfolded scenario_def idle_def cement_limit_def add_metadata_def
                timestamp_placeholder_def ascii_strip_def is_space_def str_int_def digits.simps
                digit_char_def Let_def)

section \<open>The memory layer: what \<open>search\<close> does\<close>

lemma retrieve_rows:
  assumes "\<forall>i \<in> set idxs. i < length docs"
    and "length metas = length docs" and "length dists = length docs"
  shows "retrieve \<lparr>documents = Some [docs], metadatas = Some [metas], distances = Some [dists]\<rparr>
           idxs acc
         = Inr (acc @ map (\<lambda>i. \<lparr>fact_str = docs ! i, metadata = metas ! i, score = dists ! i\<rparr>) idxs)"
  using assms
  by (induction idxs arbitrary: acc)
     (simp_all add: item_at_def subscript_def index_def field_true_def)

lemma reformat_rows:
  "reformat \<lparr>documents = Some [map rec_document hits], metadatas = Some [map rec_metadata hits],
             distances = Some [map (\<lambda>r. distance E qv (rec_embedding r)) hits]\<rparr>
   = Inr (map (hit_item E qv) hits)"
proof -
  have "map (\<lambda>i. \<lparr>fact_str = map rec_document hits ! i, metadata = map rec_metadata hits ! i,
                   score = map (\<lambda>r. distance E qv (rec_embedding r)) hits ! i\<rparr>) [0..<length hits]
        = map (hit_item E qv) hits"
    by (rule nth_equalityI) (simp_all add: hit_item_def)
  then show ?thesis
    by (simp add: reformat_def field_true_def subscript_def index_def retrieve_rows)
qed

text \<open>\<open>search\<close> with its steps written out.\<close>

lemma search_unfolded:
  "search E st query limit =
     (let h1 = calls st @ [CollectionCount]; count = int (length (collection st)) in
      if collection st = [] then (Inr [], st\<lparr>calls := h1\<rparr>)
      else case embedding E h1 query of
             Inl e \<Rightarrow> (Inl e, st\<lparr>calls := h1 @ [Embedding query]\<rparr>)
           | Inr qv \<Rightarrow>
               if min limit count \<le> 0
               then (Inl (InvalidArgument ''Number of requested results cannot be negative, or zero.''),
                     st\<lparr>calls := h1 @ [Embedding query, CollectionQuery]\<rparr>)
               else (Inr (map (hit_item E qv) (nearest E qv (nat (min limit count)) (collection st))),
                     st\<lparr>calls := h1 @ [Embedding query, CollectionQuery]\<rparr>))"
  by (simp add: search_def collection_count_def get_embedding_def collection_query_def logged_def
                Let_def reformat_rows split: sum.splits)

lemma sorted_scores: "sorted (map score (map (hit_item E qv) (nearest E qv k rs)))"
proof -
  have "map score (map (hit_item E qv) (nearest E qv k rs))
        = take k (map (\<lambda>r. distance E qv (rec_embedding r))
                   (sort_key (\<lambda>r. distance E qv (rec_embedding r)) rs))"
    by (simp add: nearest_def hit_item_def take_map o_def)
  then show ?thesis
    by (simp add: sorted_wrt_take)
qed

lemma length_nearest: "length (nearest E qv k rs) = min k (length rs)"
  by (simp add: nearest_def min.commute)

text \<open>
  Claim C5, as the code has it. On an empty store \<open>search\<close> returns the empty sequence for
  every limit, and its only call is the count of the collection: the embedding provider is
  not called. For a limit that is not negative, whatever \<open>search\<close> returns has at most
  \<open>min(limit, count)\<close> items, in ascending order of distance. On a store that is not empty
  a limit of zero or less makes \<open>search\<close> raise.
\<close>

theorem search_bounded_and_sorted:
  "(collection st = [] \<longrightarrow> search E st query limit = (Inr [], logged CollectionCount st))
   \<and> (\<forall>results st'. 0 \<le> limit \<and> search E st query limit = (Inr results, st')
        \<longrightarrow> int (length results) \<le> min limit (int (length (collection st)))
            \<and> sorted (map score results))
   \<and> (collection st \<noteq> [] \<and> limit \<le> 0 \<longrightarrow> (\<exists>e. fst (search E st query limit) = Inl e))"
proof (intro conjI allI impI)
  assume "collection st = []"
  then show "search E st query limit = (Inr [], logged CollectionCount st)"
    by (simp add: search_unfolded logged_def)
next
  fix results st'
  assume a: "0 \<le> limit \<and> search E st query limit = (Inr results, st')"
  show "int (length results) \<le> min limit (int (length (collection st)))"
    using a by (auto simp add: search_unfolded Let_def length_nearest split: sum.splits if_splits)
  show "sorted (map score results)"
    using a sorted_scores
    by (auto simp add: search_unfolded Let_def simp del: map_map split: sum.splits if_splits)
next
  assume "collection st \<noteq> [] \<and> limit \<le> 0"
  then show "\<exists>e. fst (search E st query limit) = Inl e"
    by (auto simp add: search_unfolded Let_def split: sum.splits)
qed

theorem search_bounded_and_sorted_witness:
  "search (scenario [] [] [0, 1]) two_memories ''rules for Mumbai site'' 1
     = (Inr [\<lparr>fact_str = ''Steel from Acme is banned at the Mumbai site'', metadata = [],
              score = 0\<rparr>],
        two_memories\<lparr>calls := [CollectionCount, Embedding ''rules for Mumbai site'',
                                CollectionQuery]\<rparr>)
   \<and> map score (the_results (search (scenario [] [] [0, 1]) two_memories ''rules for Mumbai site'' 3))
     = [0, 2]
   \<and> search (scenario [] [] [0, 1]) idle ''rules for Mumbai site'' 3
     = (Inr [], idle\<lparr>calls := [CollectionCount]\<rparr>)"
  using search_bounded_and_sorted
          [where E = "scenario [] [] [0, 1]" and st = two_memories
             and query = "''rules for Mumbai site''" and limit = 1]
  by (simp add: search_unfolded scenario_def two_memories_def idle_def cement_limit_def
                steel_ban_def nearest_def hit_item_def squared_l2_def the_results_def Let_def)

text \<open>
  Claim C5 as stated fails for a negative limit: on the empty store \<open>search\<close> returns the
  empty sequence, whose length 0 is more than \<open>min(-1, 0)\<close>; and with the limit 0 on a
  store of two records it raises and returns nothing.
\<close>

theorem search_negative_limit_counterexample:
  "fst (search (scenario [] [] [0, 1]) idle ''rules for Mumbai site'' (- 1)) = Inr []
   \<and> min (- 1) (int (length (collection idle))) < int (length ([] :: mem_item list))
   \<and> fst (search (scenario [] [] [0, 1]) two_memories ''rules for Mumbai site'' 0)
     = Inl (InvalidArgument ''Number of requested results cannot be negative, or zero.'')"
  by (simp add: search_unfolded scenario_def two_memories_def idle_def Let_def)

section \<open>Evaluating the examples\<close>

lemmas string_defs = ascii_lower_def lower_char_def ascii_upper_def upper_char_def upper_letters_def
  lower_letters_def ascii_strip_def is_space_def nl_def str_int_def digits.simps digit_char_def

lemmas decoder_defs = json_decode_def skip_ws_def is_json_ws_def scan_int_def scan_nat_def
  is_digit_def digits_value_def

lemmas agent_defs = process_message_def get_intent_def run_agent_def handle_approval_def
  affirmative_def extract_json_def re_search_braces_def accumulate_def error_reply_def
  approval_required_def order_placed_def truthy_opt_def dict_get_def logged_def
  check_mark_def warning_sign_def cross_mark_def

lemma decode_pause_text:
  "extract_json (scenario r t v) pause_text = Some (JObject pause_block)"
  by (simp add: extract_json_def re_search_braces_def scenario_def pause_text_def pause_json_def
                pause_block_def nl_def decoder_defs)

lemma decode_order_text:
  "extract_json (scenario r t v) order_text = Some (JObject order_block)"
  by (simp add: extract_json_def re_search_braces_def scenario_def order_text_def order_block_def
                nl_def decoder_defs)

lemma decode_unknown_status_text:
  "extract_json (scenario r t v) unknown_status_text = Some (JObject [(''status'', JString ''DONE'')])"
  by (simp add: extract_json_def re_search_braces_def scenario_def unknown_status_text_def
                decoder_defs)

lemma decode_two_brace_text:
  "extract_json (scenario r t v) two_brace_text = None"
  by (simp add: extract_json_def re_search_braces_def scenario_def two_brace_text_def
                pause_json_def decoder_defs)

lemma decode_empty_object:
  "extract_json (scenario r t v) ''{}'' = Some (JObject [])"
  by (simp add: extract_json_def re_search_braces_def scenario_def decoder_defs)

lemma intent_of_scenario:
  "get_intent (scenario ''PROCUREMENT_REQUEST'' t v) idle user_input
     = (PROCUREMENT_REQUEST, asked user_input idle)"
  by (simp add: get_intent_def truthy_opt_def scenario_def idle_def asked_def logged_def
                string_defs Let_def)

lemma run_of_scenario:
  "runner_run (scenario r t v) h records user_input = Inr (said t)"
  by (simp add: scenario_def said_def)

lemma accumulate_said: "accumulate (said t) = t"
  by (simp add: accumulate_def said_def)

section \<open>The substring test\<close>

lemma starts_with_iff: "starts_with needle hay \<longleftrightarrow> (\<exists>post. hay = needle @ post)"
  by (induction needle hay rule: starts_with.induct) auto

lemma contains_iff: "contains needle hay \<longleftrightarrow> (\<exists>pre post. hay = pre @ needle @ post)"
proof (induction hay)
  case Nil
  then show ?case by auto
next
  case (Cons h hs)
  show ?case
  proof
    assume "contains needle (h # hs)"
    then consider "starts_with needle (h # hs)" | "contains needle hs" by auto
    then show "\<exists>pre post. h # hs = pre @ needle @ post"
    proof cases
      case 1
      then obtain post where "h # hs = needle @ post" by (auto simp: starts_with_iff)
      then have "h # hs = [] @ needle @ post" by simp
      then show ?thesis by blast
    next
      case 2
      then obtain pre post where "hs = pre @ needle @ post" using Cons.IH by auto
      then have "h # hs = (h # pre) @ needle @ post" by simp
      then show ?thesis by blast
    qed
  next
    assume "\<exists>pre post. h # hs = pre @ needle @ post"
    then obtain pre post where eq: "h # hs = pre @ needle @ post" by auto
    show "contains needle (h # hs)"
    proof (cases pre)
      case Nil
      with eq have "starts_with needle (h # hs)" by (auto simp: starts_with_iff)
      then show ?thesis by simp
    next
      case (Cons p ps)
      with eq have "hs = ps @ needle @ post" by simp
      then have "contains needle hs" using Cons.IH by blast
      then show ?thesis by simp
    qed
  qed
qed

section \<open>The agent: intent and approval\<close>

text \<open>\<open>get_intent\<close> changes neither the pending order nor the collection.\<close>

lemma get_intent_frame:
  "get_intent E st user_input = (i, st1) \<Longrightarrow>
     pending_order st1 = pending_order st \<and> collection st1 = collection st"
  by (auto simp add: get_intent_def logged_def Let_def split: if_splits sum.splits option.splits)

lemma get_intent_idle:
  "\<not> truthy_opt (pending_order st) \<Longrightarrow> fst (get_intent E st user_input) \<noteq> APPROVAL_REPLY"
  by (auto simp add: get_intent_def logged_def Let_def split: if_splits sum.splits option.splits)

text \<open>With no pending order, an input that is not classified \<open>STORE_FACT\<close> runs the agent.\<close>

lemma process_message_agent:
  assumes "\<not> truthy_opt (pending_order st)" and "get_intent E st user_input = (i, st1)"
    and "i \<noteq> STORE_FACT"
  shows "process_message E st user_input = run_agent E st1 user_input"
proof -
  have "i \<noteq> APPROVAL_REPLY" using get_intent_idle [OF assms(1), of E user_input] assms(2) by simp
  with assms(3) have "i = PROCUREMENT_REQUEST \<or> i = CHAT" by (cases i) auto
  then show ?thesis using assms(2) by (auto simp add: process_message_def)
qed

text \<open>
  Claim C4. When a pending order exists (the attribute is true for Python), \<open>get_intent\<close>
  returns \<open>APPROVAL_REPLY\<close> for every input and leaves the state as it was, the list of
  calls included: the language model is not called. \<open>process_message\<close> then handles the
  input as the reply to the pending order, whatever the input says.
\<close>

theorem pending_order_forces_approval_reply:
  "truthy_opt (pending_order st) \<Longrightarrow>
     get_intent E st user_input = (APPROVAL_REPLY, st)
     \<and> calls (snd (get_intent E st user_input)) = calls st
     \<and> process_message E st user_input = handle_approval E st user_input"
  by (simp add: get_intent_def process_message_def)

theorem pending_order_forces_approval_reply_witness:
  "truthy_opt (pending_order awaiting_approval)
   \<and> get_intent (scenario ''PROCUREMENT_REQUEST'' pause_text [1, 0]) awaiting_approval ''order cement''
     = (APPROVAL_REPLY, awaiting_approval)
   \<and> fst (get_intent (scenario ''PROCUREMENT_REQUEST'' pause_text [1, 0]) idle ''order cement'')
     = PROCUREMENT_REQUEST"
  using pending_order_forces_approval_reply
          [where E = "scenario ''PROCUREMENT_REQUEST'' pause_text [1, 0]" and st = awaiting_approval
             and user_input = "''order cement''"]
  by (simp add: agent_defs string_defs scenario_def awaiting_approval_def idle_def pause_block_def)




text \<open>
  Claim C3. In the state with a pending order, for every input: when the input, put in
  lower case by Python (\<open>str.lower()\<close>), is one of \<open>yes\<close>, \<open>y\<close>, \<open>approve\<close>, \<open>ok\<close> the handler answers with the
  confirmation, otherwise with the cancellation; in both cases the pending order is cleared.
  \<open>process_message\<close> gives every input in that state to this handler, so the very next
  reply resolves the pending order.
\<close>

theorem approval_reply_resolves_pending_order:
  "pending_order st = Some (JObject d) \<Longrightarrow>
     handle_approval E st user_input =
       (Inr (if str_lower E user_input \<in> set [''yes'', ''y'', ''approve'', ''ok'']
             then \<lparr>response = check_mark @ '' **Order Confirmed**.'' @ nl @ ''Placed order with ''
                               @ py_str E (dict_get d ''selected_vendor'') @ ''.'',
                   reasoning = ''User manually approved.''\<rparr>
             else \<lparr>response = cross_mark @ ''Order Cancelled.'', reasoning = ''User denied.''\<rparr>),
        st\<lparr>pending_order := None\<rparr>)
     \<and> (d \<noteq> [] \<longrightarrow> process_message E st user_input = handle_approval E st user_input)"
  by (simp add: handle_approval_def affirmative_def get_intent_def process_message_def truthy_opt_def)

theorem approval_reply_resolves_pending_order_witness:
  "pending_order awaiting_approval = Some (JObject pause_block)
   \<and> handle_approval (scenario [] [] []) awaiting_approval ''Yes''
     = (Inr \<lparr>response = check_mark @ '' **Order Confirmed**.'' @ nl @ ''Placed order with BuildMart.'',
             reasoning = ''User manually approved.''\<rparr>, idle)
   \<and> handle_approval (scenario [] [] []) awaiting_approval ''no''
     = (Inr \<lparr>response = cross_mark @ ''Order Cancelled.'', reasoning = ''User denied.''\<rparr>, idle)"
  using approval_reply_resolves_pending_order
          [where E = "scenario [] [] []" and st = awaiting_approval and d = pause_block
             and user_input = "''Yes''"]
  by (simp add: agent_defs string_defs scenario_def awaiting_approval_def idle_def
                pause_block_def)

section \<open>The agent: the run and the decision block\<close>

text \<open>
  Claim C7. When the input goes to the agent and the run of the agent raises,
  \<open>process_message\<close> returns the error reply built from the exception, and the pending
  order and the collection are the ones before the call.
\<close>

theorem agent_failure_keeps_pending_order:
  "get_intent E st user_input = (i, st1) \<Longrightarrow> i = PROCUREMENT_REQUEST \<or> i = CHAT \<Longrightarrow>
   runner_run E (calls st1) (collection st1) user_input = Inl e \<Longrightarrow>
     fst (process_message E st user_input)
       = Inr \<lparr>response = ''Error: '' @ str_error e, reasoning = str_error e\<rparr>
     \<and> pending_order (snd (process_message E st user_input)) = pending_order st
     \<and> collection (snd (process_message E st user_input)) = collection st"
  using get_intent_frame [of E st user_input i st1]
  by (auto simp add: process_message_def run_agent_def error_reply_def logged_def Let_def)

theorem agent_failure_keeps_pending_order_witness:
  "get_intent agent_down remembering ''Order 200 bags of cement''
     = (PROCUREMENT_REQUEST,
        remembering\<lparr>calls := [Completion (classify_prompt ''Order 200 bags of cement'')]\<rparr>)
   \<and> fst (process_message agent_down remembering ''Order 200 bags of cement'')
     = Inr \<lparr>response = ''Error: model unavailable'', reasoning = ''model unavailable''\<rparr>
   \<and> pending_order (snd (process_message agent_down remembering ''Order 200 bags of cement'')) = None
   \<and> collection (snd (process_message agent_down remembering ''Order 200 bags of cement''))
     = [cement_limit]"
  using agent_failure_keeps_pending_order
          [where E = agent_down and st = remembering and user_input = "''Order 200 bags of cement''"
             and i = PROCUREMENT_REQUEST
             and ?st1.0 = "remembering\<lparr>calls := [Completion (classify_prompt ''Order 200 bags of cement'')]\<rparr>"
             and e = "ProviderError ''model unavailable''"]
  by (simp add: agent_defs string_defs scenario_def agent_down_def remembering_def idle_def)

text \<open>The run of the agent when the response holds no block, and when it holds one.\<close>

lemma run_agent_unstructured:
  assumes "runner_run E (calls st) (collection st) user_input = Inr events"
    and "\<not> truthy_opt (extract_json E (accumulate events))"
  shows "run_agent E st user_input =
           (Inr \<lparr>response = accumulate events,
                 reasoning = ''ADK Agent Response:'' @ nl @ accumulate events\<rparr>,
            logged (RunnerRun user_input) st)"
  using assms by (simp add: run_agent_def Let_def)

lemma run_agent_block:
  assumes "runner_run E (calls st) (collection st) user_input = Inr events"
    and "extract_json E (accumulate events) = Some (JObject d)" and "d \<noteq> []"
  shows "run_agent E st user_input =
     (if dict_get d ''status'' = JString ''PAUSE_APPROVAL_NEEDED''
      then (Inr \<lparr>response = warning_sign @ '' **Approval Required**'' @ nl
                    @ ''Reason: '' @ py_str E (dict_get d ''reasoning'') @ nl
                    @ ''Cost: '' @ py_str E (dict_get d ''total_cost'') @ nl @ ''Proceed? (y/n)'',
                  reasoning = ''ADK Agent Response:'' @ nl @ accumulate events\<rparr>,
            (logged (RunnerRun user_input) st)\<lparr>pending_order := Some (JObject d)\<rparr>)
      else (Inr \<lparr>response = check_mark @ '' **Order Placed**'' @ nl
                    @ ''Vendor: '' @ py_str E (dict_get d ''selected_vendor'') @ nl
                    @ ''Cost: '' @ py_str E (dict_get d ''total_cost'') @ nl
                    @ ''Reason: '' @ py_str E (dict_get d ''reasoning''),
                  reasoning = ''ADK Agent Response:'' @ nl @ accumulate events\<rparr>,
            logged (RunnerRun user_input) st))"
  using assms
  by (simp add: run_agent_def truthy_opt_def approval_required_def order_placed_def Let_def)

text \<open>
  Claim C2. With no pending order, when the input goes to the agent and the response of
  the agent yields a decision block: if the status of the block is \<open>PAUSE_APPROVAL_NEEDED\<close>,
  \<open>process_message\<close> stores the block as the pending order (which is then true for
  Python, the state of a pending approval) and answers with the summary that ends by asking
  \<open>Proceed? (y/n)\<close>; if the status is \<open>ORDER_PLACED\<close>, it answers with
  the confirmation summary and the pending order stays empty.
\<close>

theorem decision_block_transitions:
  assumes "pending_order st = None"
    and "get_intent E st user_input = (i, st1)" and "i \<noteq> STORE_FACT"
    and "runner_run E (calls st1) (collection st1) user_input = Inr events"
    and "extract_json E (accumulate events) = Some (JObject d)"
  shows "(map_of d ''status'' = Some (JString ''PAUSE_APPROVAL_NEEDED'') \<longrightarrow>
            process_message E st user_input =
              (Inr \<lparr>response = warning_sign @ '' **Approval Required**'' @ nl
                      @ ''Reason: '' @ py_str E (dict_get d ''reasoning'') @ nl
                      @ ''Cost: '' @ py_str E (dict_get d ''total_cost'') @ nl @ ''Proceed? (y/n)'',
                    reasoning = ''ADK Agent Response:'' @ nl @ accumulate events\<rparr>,
               (logged (RunnerRun user_input) st1)\<lparr>pending_order := Some (JObject d)\<rparr>)
            \<and> truthy_opt (pending_order (snd (process_message E st user_input))))
       \<and> (map_of d ''status'' = Some (JString ''ORDER_PLACED'') \<longrightarrow>
            process_message E st user_input =
              (Inr \<lparr>response = check_mark @ '' **Order Placed**'' @ nl
                      @ ''Vendor: '' @ py_str E (dict_get d ''selected_vendor'') @ nl
                      @ ''Cost: '' @ py_str E (dict_get d ''total_cost'') @ nl
                      @ ''Reason: '' @ py_str E (dict_get d ''reasoning''),
                    reasoning = ''ADK Agent Response:'' @ nl @ accumulate events\<rparr>,
               logged (RunnerRun user_input) st1)
            \<and> pending_order (logged (RunnerRun user_input) st1) = None)"
proof -
  have pm: "process_message E st user_input = run_agent E st1 user_input"
    using assms(1-3) by (simp add: process_message_agent truthy_opt_def)
  have idle1: "pending_order st1 = None"
    using get_intent_frame [OF assms(2)] assms(1) by simp
  show ?thesis
  proof (intro conjI impI)
    assume s: "map_of d ''status'' = Some (JString ''PAUSE_APPROVAL_NEEDED'')"
    then have "d \<noteq> []" by auto
    then have eq: "process_message E st user_input =
              (Inr \<lparr>response = warning_sign @ '' **Approval Required**'' @ nl
                      @ ''Reason: '' @ py_str E (dict_get d ''reasoning'') @ nl
                      @ ''Cost: '' @ py_str E (dict_get d ''total_cost'') @ nl @ ''Proceed? (y/n)'',
                    reasoning = ''ADK Agent Response:'' @ nl @ accumulate events\<rparr>,
               (logged (RunnerRun user_input) st1)\<lparr>pending_order := Some (JObject d)\<rparr>)"
      using s by (simp add: pm run_agent_block [OF assms(4,5)] dict_get_def)
    then show "process_message E st user_input =
              (Inr \<lparr>response = warning_sign @ '' **Approval Required**'' @ nl
                      @ ''Reason: '' @ py_str E (dict_get d ''reasoning'') @ nl
                      @ ''Cost: '' @ py_str E (dict_get d ''total_cost'') @ nl @ ''Proceed? (y/n)'',
                    reasoning = ''ADK Agent Response:'' @ nl @ accumulate events\<rparr>,
               (logged (RunnerRun user_input) st1)\<lparr>pending_order := Some (JObject d)\<rparr>)" .
    show "truthy_opt (pending_order (snd (process_message E st user_input)))"
      using \<open>d \<noteq> []\<close> by (simp add: eq truthy_opt_def)
  next
    assume s: "map_of d ''status'' = Some (JString ''ORDER_PLACED'')"
    then have "d \<noteq> []" by auto
    then show "process_message E st user_input =
              (Inr \<lparr>response = check_mark @ '' **Order Placed**'' @ nl
                      @ ''Vendor: '' @ py_str E (dict_get d ''selected_vendor'') @ nl
                      @ ''Cost: '' @ py_str E (dict_get d ''total_cost'') @ nl
                      @ ''Reason: '' @ py_str E (dict_get d ''reasoning''),
                    reasoning = ''ADK Agent Response:'' @ nl @ accumulate events\<rparr>,
               logged (RunnerRun user_input) st1)"
      using s by (simp add: pm run_agent_block [OF assms(4,5)] dict_get_def)
  next
    show "pending_order (logged (RunnerRun user_input) st1) = None"
      using idle1 by (simp add: logged_def)
  qed
qed

theorem decision_block_transitions_witness:
  "process_message (scenario ''PROCUREMENT_REQUEST'' pause_text []) idle ''Order 200 bags of cement''
     = (Inr \<lparr>response = warning_sign @ '' **Approval Required**'' @ nl
                @ ''Reason: Total cost 60000 exceeds the limit of 50000'' @ nl
                @ ''Cost: 60000'' @ nl @ ''Proceed? (y/n)'',
              reasoning = ''ADK Agent Response:'' @ nl @ pause_text\<rparr>,
        \<lparr>pending_order = Some (JObject pause_block), collection = [],
         calls = [Completion (classify_prompt ''Order 200 bags of cement''),
                  RunnerRun ''Order 200 bags of cement'']\<rparr>)
   \<and> process_message (scenario ''PROCUREMENT_REQUEST'' order_text []) idle ''Order 200 bags of cement''
     = (Inr \<lparr>response = check_mark @ '' **Order Placed**'' @ nl @ ''Vendor: BuildMart'' @ nl
                @ ''Cost: 40000'' @ nl @ ''Reason: Within the limit of 50000'',
              reasoning = ''ADK Agent Response:'' @ nl @ order_text\<rparr>,
        \<lparr>pending_order = None, collection = [],
         calls = [Completion (classify_prompt ''Order 200 bags of cement''),
                  RunnerRun ''Order 200 bags of cement'']\<rparr>)"
  using decision_block_transitions
          [where E = "scenario ''PROCUREMENT_REQUEST'' pause_text []" and st = idle
             and user_input = "''Order 200 bags of cement''" and i = PROCUREMENT_REQUEST
             and ?st1.0 = "asked ''Order 200 bags of cement'' idle" and events = "said pause_text"
             and d = pause_block]
        decision_block_transitions
          [where E = "scenario ''PROCUREMENT_REQUEST'' order_text []" and st = idle
             and user_input = "''Order 200 bags of cement''" and i = PROCUREMENT_REQUEST
             and ?st1.0 = "asked ''Order 200 bags of cement'' idle" and events = "said order_text"
             and d = order_block]
  by (simp add: intent_of_scenario run_of_scenario accumulate_said decode_pause_text
                decode_order_text)
     (simp add: idle_def asked_def logged_def pause_block_def order_block_def dict_get_def
                str_int_def digits.simps digit_char_def)

text \<open>
  Claim C10, as the code has it. The status of the block is never checked against the
  enumeration: for every block that is not empty and whose status is not
  \<open>PAUSE_APPROVAL_NEEDED\<close> (absent, or any other value), \<open>process_message\<close> answers with
  the Order-Placed confirmation and leaves no pending order. A field the block lacks is
  rendered as the text \<open>None\<close>. An empty block counts as no block: the raw response is
  returned.
\<close>

theorem unvalidated_status_places_order:
  assumes "pending_order st = None"
    and "get_intent E st user_input = (i, st1)" and "i \<noteq> STORE_FACT"
    and "runner_run E (calls st1) (collection st1) user_input = Inr events"
    and "extract_json E (accumulate events) = Some (JObject d)"
  shows "(d \<noteq> [] \<and> dict_get d ''status'' \<noteq> JString ''PAUSE_APPROVAL_NEEDED'' \<longrightarrow>
            process_message E st user_input =
              (Inr \<lparr>response = check_mark @ '' **Order Placed**'' @ nl
                      @ ''Vendor: '' @ py_str E (dict_get d ''selected_vendor'') @ nl
                      @ ''Cost: '' @ py_str E (dict_get d ''total_cost'') @ nl
                      @ ''Reason: '' @ py_str E (dict_get d ''reasoning''),
                    reasoning = ''ADK Agent Response:'' @ nl @ accumulate events\<rparr>,
               logged (RunnerRun user_input) st1)
            \<and> pending_order (logged (RunnerRun user_input) st1) = None)
       \<and> (\<forall>k. map_of d k = None \<longrightarrow> py_str E (dict_get d k) = ''None'')
       \<and> (d = [] \<longrightarrow>
            process_message E st user_input =
              (Inr \<lparr>response = accumulate events,
                    reasoning = ''ADK Agent Response:'' @ nl @ accumulate events\<rparr>,
               logged (RunnerRun user_input) st1))"
proof -
  have pm: "process_message E st user_input = run_agent E st1 user_input"
    using assms(1-3) by (simp add: process_message_agent truthy_opt_def)
  have idle1: "pending_order st1 = None"
    using get_intent_frame [OF assms(2)] assms(1) by simp
  show ?thesis
    using idle1 assms(5)
    by (auto simp add: pm run_agent_block [OF assms(4,5)] run_agent_unstructured [OF assms(4)]
                       dict_get_def logged_def truthy_opt_def)
qed

theorem unvalidated_status_places_order_witness:
  "process_message (scenario ''PROCUREMENT_REQUEST'' unknown_status_text []) idle ''Order cement''
     = (Inr \<lparr>response = check_mark @ '' **Order Placed**'' @ nl @ ''Vendor: None'' @ nl
                @ ''Cost: None'' @ nl @ ''Reason: None'',
              reasoning = ''ADK Agent Response:'' @ nl @ unknown_status_text\<rparr>,
        \<lparr>pending_order = None, collection = [],
         calls = [Completion (classify_prompt ''Order cement''), RunnerRun ''Order cement'']\<rparr>)"
  using unvalidated_status_places_order
          [where E = "scenario ''PROCUREMENT_REQUEST'' unknown_status_text []" and st = idle
             and user_input = "''Order cement''" and i = PROCUREMENT_REQUEST
             and ?st1.0 = "asked ''Order cement'' idle" and events = "said unknown_status_text"
             and d = "[(''status'', JString ''DONE'')]"]
  by (simp add: intent_of_scenario run_of_scenario accumulate_said decode_unknown_status_text)
     (simp add: idle_def asked_def logged_def dict_get_def)

text \<open>
  Claim C10 as stated fails twice. For the response \<open>{"status": "DONE"}\<close> the missing
  fields are rendered as \<open>None\<close>, not as empty texts; and for the response \<open>{}\<close>, from
  which an object with no status is extracted, the answer is the raw response and not the
  Order-Placed confirmation.
\<close>

theorem missing_fields_render_none_counterexample:
  "extract_json (scenario ''PROCUREMENT_REQUEST'' unknown_status_text []) unknown_status_text
     = Some (JObject [(''status'', JString ''DONE'')])
   \<and> fst (process_message (scenario ''PROCUREMENT_REQUEST'' unknown_status_text []) idle
             ''Order cement'')
     = Inr \<lparr>response = check_mark @ '' **Order Placed**'' @ nl @ ''Vendor: None'' @ nl
               @ ''Cost: None'' @ nl @ ''Reason: None'',
             reasoning = ''ADK Agent Response:'' @ nl @ unknown_status_text\<rparr>
   \<and> fst (process_message (scenario ''PROCUREMENT_REQUEST'' unknown_status_text []) idle
             ''Order cement'')
     \<noteq> Inr \<lparr>response = check_mark @ '' **Order Placed**'' @ nl @ ''Vendor: '' @ nl
               @ ''Cost: '' @ nl @ ''Reason: '',
             reasoning = ''ADK Agent Response:'' @ nl @ unknown_status_text\<rparr>
   \<and> extract_json (scenario ''PROCUREMENT_REQUEST'' ''{}'' []) ''{}'' = Some (JObject [])
   \<and> fst (process_message (scenario ''PROCUREMENT_REQUEST'' ''{}'' []) idle ''Order cement'')
     = Inr \<lparr>response = ''{}'', reasoning = ''ADK Agent Response:'' @ nl @ ''{}''\<rparr>"
  by (simp add: process_message_def intent_of_scenario run_agent_def run_of_scenario
                accumulate_said decode_unknown_status_text decode_empty_object truthy_opt_def
                order_placed_def dict_get_def Let_def)

section \<open>The agent: where the decision block is looked for\<close>

lemma dropWhile_upto:
  "c \<notin> set pre \<Longrightarrow> dropWhile (\<lambda>x. x \<noteq> c) (pre @ c # rest) = c # rest"
  by (induction pre) auto

text \<open>The match of the pattern is the text from the first \<open>{\<close> to the last \<open>}\<close>.\<close>

lemma re_search_braces_span:
  assumes "CHR ''{'' \<notin> set pre" and "CHR ''}'' \<notin> set post"
  shows "re_search_braces (pre @ ''{'' @ mid @ ''}'' @ post) = Some (''{'' @ mid @ ''}'')"
proof -
  have 1: "dropWhile (\<lambda>c. c \<noteq> CHR ''{'') (pre @ CHR ''{'' # mid @ CHR ''}'' # post)
           = CHR ''{'' # mid @ CHR ''}'' # post"
    using assms(1) by (simp add: dropWhile_upto)
  have 2: "dropWhile (\<lambda>c. c \<noteq> CHR ''}'') (rev post @ CHR ''}'' # rev mid) = CHR ''}'' # rev mid"
    using assms(2) by (simp add: dropWhile_upto)
  show ?thesis
    by (simp add: re_search_braces_def 1 2)
qed

lemma re_search_braces_Some:
  assumes "re_search_braces text = Some m"
  shows "\<exists>pre mid post. text = pre @ ''{'' @ mid @ ''}'' @ post"
proof -
  let ?P = "\<lambda>c. c \<noteq> CHR ''{''"
  from assms obtain c body where d: "dropWhile ?P text = c # body" and b: "CHR ''}'' \<in> set body"
    by (auto simp add: re_search_braces_def split: list.splits if_splits)
  have "c = CHR ''{''" using hd_dropWhile [of "?P" "text"] d by auto
  moreover obtain mid post where "body = mid @ CHR ''}'' # post"
    using b by (auto dest: split_list)
  moreover have "text = takeWhile ?P text @ dropWhile ?P text" by simp
  ultimately have "text = takeWhile ?P text @ ''{'' @ mid @ ''}'' @ post"
    using d by simp
  then show ?thesis by blast
qed

text \<open>
  Claim C6, as the code has it. For every response text, \<open>extract_json\<close> decodes the one
  region that runs from the first opening brace of the text to its last closing brace,
  whatever prose or fence without braces surrounds it, and gives nothing when the text has
  no such region. When nothing true for Python is extracted, \<open>process_message\<close> returns
  the raw response text and the pending order is unchanged.
\<close>

theorem extract_json_first_to_last_brace:
  "(CHR ''{'' \<notin> set pre \<and> CHR ''}'' \<notin> set post \<longrightarrow>
      extract_json E (pre @ ''{'' @ mid @ ''}'' @ post) = json_loads E (''{'' @ mid @ ''}''))
   \<and> ((\<forall>pre mid post. text \<noteq> pre @ ''{'' @ mid @ ''}'' @ post) \<longrightarrow> extract_json E text = None)
   \<and> (\<not> truthy_opt (pending_order st) \<and> get_intent E st user_input = (i, st1) \<and> i \<noteq> STORE_FACT
        \<and> runner_run E (calls st1) (collection st1) user_input = Inr events
        \<and> \<not> truthy_opt (extract_json E (accumulate events)) \<longrightarrow>
      fst (process_message E st user_input)
        = Inr \<lparr>response = accumulate events,
               reasoning = ''ADK Agent Response:'' @ nl @ accumulate events\<rparr>
      \<and> pending_order (snd (process_message E st user_input)) = pending_order st)"
proof (intro conjI impI)
  assume "CHR ''{'' \<notin> set pre \<and> CHR ''}'' \<notin> set post"
  then show "extract_json E (pre @ ''{'' @ mid @ ''}'' @ post) = json_loads E (''{'' @ mid @ ''}'')"
    by (simp add: extract_json_def re_search_braces_span del: append.simps)
next
  assume "\<forall>pre mid post. text \<noteq> pre @ ''{'' @ mid @ ''}'' @ post"
  then have "re_search_braces text = None"
    using re_search_braces_Some [of "text"] by (cases "re_search_braces text") auto
  then show "extract_json E text = None" by (simp add: extract_json_def)
next
  assume a: "\<not> truthy_opt (pending_order st) \<and> get_intent E st user_input = (i, st1) \<and> i \<noteq> STORE_FACT
        \<and> runner_run E (calls st1) (collection st1) user_input = Inr events
        \<and> \<not> truthy_opt (extract_json E (accumulate events))"
  then have "process_message E st user_input = run_agent E st1 user_input"
    by (simp add: process_message_agent)
  with a have pm: "process_message E st user_input =
           (Inr \<lparr>response = accumulate events,
                 reasoning = ''ADK Agent Response:'' @ nl @ accumulate events\<rparr>,
            logged (RunnerRun user_input) st1)"
    by (simp add: run_agent_unstructured)
  show "fst (process_message E st user_input)
        = Inr \<lparr>response = accumulate events,
               reasoning = ''ADK Agent Response:'' @ nl @ accumulate events\<rparr>"
    by (simp add: pm)
  show "pending_order (snd (process_message E st user_input)) = pending_order st"
    using a get_intent_frame [of E st user_input i st1] by (simp add: pm logged_def)
qed

theorem extract_json_first_to_last_brace_witness:
  "CHR ''{'' \<notin> set (''Done.'' @ nl @ ''```json'' @ nl) \<and> CHR ''}'' \<notin> set (nl @ ''```'')
   \<and> extract_json (scenario ''CHAT'' ''Hello, how can I help?'' [])
        ((''Done.'' @ nl @ ''```json'' @ nl) @ ''{'' @ [CHR 0x22] @ ''status'' @ [CHR 0x22]
         @ '': '' @ [CHR 0x22] @ ''ORDER_PLACED'' @ [CHR 0x22] @ ''}'' @ (nl @ ''```''))
     = Some (JObject [(''status'', JString ''ORDER_PLACED'')])
   \<and> extract_json (scenario ''CHAT'' ''Hello, how can I help?'' []) ''No vendor sells this product.''
     = None
   \<and> process_message (scenario ''CHAT'' ''Hello, how can I help?'' []) idle ''hello''
     = (Inr \<lparr>response = ''Hello, how can I help?'',
              reasoning = ''ADK Agent Response:'' @ nl @ ''Hello, how can I help?''\<rparr>,
        idle\<lparr>calls := [Completion (classify_prompt ''hello''), RunnerRun ''hello'']\<rparr>)"
  using extract_json_first_to_last_brace
          [where E = "scenario ''CHAT'' ''Hello, how can I help?'' []" and st = idle
             and user_input = "''hello''" and i = CHAT
             and ?st1.0 = "asked ''hello'' idle"
             and events = "said ''Hello, how can I help?''"
             and pre = "''Done.'' @ nl @ ''```json'' @ nl"
             and mid = "[CHR 0x22] @ ''status'' @ [CHR 0x22] @ '': '' @ [CHR 0x22]
                        @ ''ORDER_PLACED'' @ [CHR 0x22]"
             and post = "nl @ ''```''"
             and ?text = "''No vendor sells this product.''"]
  by (simp add: agent_defs string_defs scenario_def idle_def asked_def said_def decoder_defs
                Let_def)

text \<open>
  Claim C6 as stated fails when the prose before the block has braces of its own: the last
  balanced region of \<open>two_brace_text\<close> decodes to a block that asks for approval, but the
  region from the first to the last brace does not decode, so nothing is extracted, the raw
  text is returned and no order is pending.
\<close>

theorem last_object_not_extracted_counterexample:
  "last_wellformed_object json_decode two_brace_text = Some (JObject pause_block)
   \<and> extract_json (scenario ''PROCUREMENT_REQUEST'' two_brace_text []) two_brace_text = None
   \<and> process_message (scenario ''PROCUREMENT_REQUEST'' two_brace_text []) idle
        ''Order 200 bags of cement''
     = (Inr \<lparr>response = two_brace_text, reasoning = ''ADK Agent Response:'' @ nl @ two_brace_text\<rparr>,
        \<lparr>pending_order = None, collection = [],
         calls = [Completion (classify_prompt ''Order 200 bags of cement''),
                  RunnerRun ''Order 200 bags of cement'']\<rparr>)"
proof -
  have regions: "balanced_regions two_brace_text = [''{50000}'', pause_json]"
    by (simp add: balanced_regions_def two_brace_text_def pause_json_def Let_def)
  have first: "json_decode ''{50000}'' = None"
    by (simp add: decoder_defs)
  have second: "json_decode pause_json = Some (JObject pause_block)"
    by (simp add: pause_json_def pause_block_def decoder_defs)
  have "last_wellformed_object json_decode two_brace_text = Some (JObject pause_block)"
    by (simp add: last_wellformed_object_def regions first second)
  then show ?thesis
    by (simp add: process_message_def intent_of_scenario run_agent_def run_of_scenario
                  accumulate_said decode_two_brace_text truthy_opt_def Let_def)
       (simp add: idle_def asked_def logged_def)
qed

section \<open>The state machine of the pending order\<close>

lemma approval_block_truthy: "approval_block j \<Longrightarrow> truthy j"
  by (cases j) (auto simp add: dict_get_def)

lemma handle_approval_clears: "pending_order (snd (handle_approval E st user_input)) = None"
  by (simp add: handle_approval_def Let_def split: sum.splits)

lemma add_frame: "pending_order (snd (add E st user_input md)) = pending_order st"
  by (simp add: add_unfolded Let_def split: sum.splits option.splits)

lemma run_agent_pending:
  "pending_order (snd (run_agent E st user_input)) = pending_order st
   \<or> (\<exists>j. pending_order (snd (run_agent E st user_input)) = Some j \<and> approval_block j)"
proof (cases "runner_run E (calls st) (collection st) user_input")
  case (Inl e)
  then show ?thesis by (simp add: run_agent_def logged_def Let_def)
next
  case (Inr events)
  show ?thesis
  proof (cases "extract_json E (accumulate events)")
    case None
    with Inr show ?thesis by (simp add: run_agent_def logged_def truthy_opt_def Let_def)
  next
    case (Some j)
    with Inr show ?thesis
      by (cases j)
         (auto simp add: run_agent_def logged_def truthy_opt_def Let_def approval_required_def
                         order_placed_def
               split: sum.splits)
  qed
qed

text \<open>
  The pending order is only ever absent or a block whose status is
  \<open>PAUSE_APPROVAL_NEEDED\<close>: \<open>process_message\<close> keeps the state well formed, and in a well
  formed state the pending order is true for Python exactly when it is there.
\<close>

theorem pending_order_is_an_approval_block:
  "pending_ok st \<Longrightarrow>
     pending_ok (snd (process_message E st user_input))
     \<and> (truthy_opt (pending_order st) \<longleftrightarrow> pending_order st \<noteq> None)"
proof
  assume ok: "pending_ok st"
  obtain i st1 where gi: "get_intent E st user_input = (i, st1)" by (cases "get_intent E st user_input")
  have f: "pending_order st1 = pending_order st" using get_intent_frame [OF gi] by simp
  show "pending_ok (snd (process_message E st user_input))"
  proof (cases i)
    case APPROVAL_REPLY
    then show ?thesis using gi by (simp add: process_message_def pending_ok_def handle_approval_clears)
  next
    case STORE_FACT
    then show ?thesis
      using gi ok f add_frame [of E st1 user_input None]
      by (auto simp add: process_message_def pending_ok_def split: prod.splits sum.splits)
  next
    case PROCUREMENT_REQUEST
    then show ?thesis
      using gi ok f run_agent_pending [of E st1 user_input]
      by (auto simp add: process_message_def pending_ok_def)
  next
    case CHAT
    then show ?thesis
      using gi ok f run_agent_pending [of E st1 user_input]
      by (auto simp add: process_message_def pending_ok_def)
  qed
  show "truthy_opt (pending_order st) \<longleftrightarrow> pending_order st \<noteq> None"
    using ok approval_block_truthy
    by (auto simp add: pending_ok_def truthy_opt_def split: option.splits)
qed

theorem pending_order_is_an_approval_block_witness:
  "pending_ok idle
   \<and> pending_ok (snd (process_message (scenario ''PROCUREMENT_REQUEST'' pause_text []) idle
                        ''Order 200 bags of cement''))
   \<and> pending_order (snd (process_message (scenario ''PROCUREMENT_REQUEST'' pause_text []) idle
                        ''Order 200 bags of cement'')) = Some (JObject pause_block)"
  using pending_order_is_an_approval_block
          [where E = "scenario ''PROCUREMENT_REQUEST'' pause_text []" and st = idle
             and user_input = "''Order 200 bags of cement''"]
  by (simp add: process_message_def intent_of_scenario run_agent_def run_of_scenario
                accumulate_said decode_pause_text truthy_opt_def approval_required_def Let_def)
     (simp add: pending_ok_def idle_def pause_block_def dict_get_def)

text \<open>
  The round trip of an approval: from the state without a pending order, a response whose
  block asks for approval is followed by a state in which every next input, under any
  environment, is an approval reply that clears the pending order without a call to a
  provider.
\<close>

theorem approval_round_trip:
  assumes "pending_order st = None"
    and "get_intent E st user_input = (i, st1)" and "i \<noteq> STORE_FACT"
    and "runner_run E (calls st1) (collection st1) user_input = Inr events"
    and "extract_json E (accumulate events) = Some (JObject d)"
    and "map_of d ''status'' = Some (JString ''PAUSE_APPROVAL_NEEDED'')"
  shows "fst (get_intent E' (snd (process_message E st user_input)) answer) = APPROVAL_REPLY
         \<and> pending_order (snd (process_message E' (snd (process_message E st user_input)) answer))
           = None
         \<and> calls (snd (process_message E' (snd (process_message E st user_input)) answer))
           = calls st1 @ [RunnerRun user_input]"
proof -
  have "d \<noteq> []" using assms(6) by auto
  have pm: "process_message E st user_input = run_agent E st1 user_input"
    using assms(1-3) by (simp add: process_message_agent truthy_opt_def)
  have st2: "snd (process_message E st user_input)
             = (logged (RunnerRun user_input) st1)\<lparr>pending_order := Some (JObject d)\<rparr>"
    using assms(6) \<open>d \<noteq> []\<close>
    by (simp add: pm run_agent_block [OF assms(4,5)] dict_get_def)
  show ?thesis
    unfolding st2 using \<open>d \<noteq> []\<close>
    by (simp add: process_message_def get_intent_def truthy_opt_def handle_approval_def
                  logged_def Let_def)
qed

theorem approval_round_trip_witness:
  "process_message (scenario [] [] [])
     (snd (process_message (scenario ''PROCUREMENT_REQUEST'' pause_text []) idle
             ''Order 200 bags of cement'')) ''yes''
   = (Inr \<lparr>response = check_mark @ '' **Order Confirmed**.'' @ nl @ ''Placed order with BuildMart.'',
            reasoning = ''User manually approved.''\<rparr>,
      \<lparr>pending_order = None, collection = [],
       calls = [Completion (classify_prompt ''Order 200 bags of cement''),
                RunnerRun ''Order 200 bags of cement'']\<rparr>)"
  using approval_round_trip
          [where E = "scenario ''PROCUREMENT_REQUEST'' pause_text []" and st = idle
             and user_input = "''Order 200 bags of cement''" and i = PROCUREMENT_REQUEST
             and ?st1.0 = "asked ''Order 200 bags of cement'' idle" and events = "said pause_text"
             and d = pause_block and E' = "scenario [] [] []" and answer = "''yes''"]
  by (simp add: process_message_def intent_of_scenario run_agent_def run_of_scenario
                accumulate_said decode_pause_text truthy_opt_def approval_required_def Let_def)
     (simp add: agent_defs string_defs scenario_def idle_def asked_def pause_block_def Let_def)

text \<open>
  The keywords of the classification are tried in a fixed order, not in the order in which
  the reply has them: a reply that contains \<open>STORE_FACT\<close> is classified \<open>STORE_FACT\<close> also
  when \<open>PROCUREMENT\<close> comes first in it.
\<close>

theorem store_fact_keyword_wins:
  "\<not> truthy_opt (pending_order st) \<Longrightarrow>
   completion E (calls st) (classify_prompt user_input) = Inr (Some c) \<Longrightarrow>
     fst (get_intent E st user_input) =
       (if contains ''STORE_FACT'' (str_upper E (str_strip E c)) then STORE_FACT
        else if contains ''PROCUREMENT'' (str_upper E (str_strip E c)) then PROCUREMENT_REQUEST
        else CHAT)"
  by (simp add: get_intent_def Let_def)

theorem store_fact_keyword_wins_witness:
  "\<not> truthy_opt (pending_order idle)
   \<and> fst (get_intent (scenario ''procurement_request, not store_fact'' [] []) idle ''Order cement'')
     = STORE_FACT"
  using store_fact_keyword_wins
          [where E = "scenario ''procurement_request, not store_fact'' [] []" and st = idle
             and user_input = "''Order cement''" and c = "''procurement_request, not store_fact''"]
  by (simp add: get_intent_def truthy_opt_def scenario_def idle_def string_defs Let_def)

end
